theory Spec2Isabelle
  imports Main
begin

section \<open>Contract lookup: the handler \<open>getContract\<close>\<close>

text \<open>
  The handler resolves the ABI of a contract from its address. It first asks the block
  explorer for a verified ABI (following a proxy to its implementation), and when that
  fails it recovers function selectors from the deployed bytecode and resolves each one
  through a signature registry.

  Strings are lists of 8-bit characters, one character for one code unit of the
  JavaScript string. Everything the handler awaits (\<open>fetch\<close>, \<open>response.json()\<close>) is read
  from an environment that may answer each request differently depending on the requests
  issued before it; the handler returns its HTTP response together with the list of
  requests it issued, in the order of issue.
\<close>

subsection \<open>Character classes of the regular expressions\<close>

text \<open>The class \<open>[a-fA-F0-9]\<close> (written \<open>[0-9a-fA-F]\<close> in the bytecode scan).\<close>

definition isHexDigit :: "char \<Rightarrow> bool" where
  "isHexDigit c = (c \<in> set ''0123456789abcdefABCDEF'')"

text \<open>The class \<open>[a-zA-Z0-9_]\<close>.\<close>

definition isNameChar :: "char \<Rightarrow> bool" where
  "isNameChar c =
     (c \<in> set ''abcdefghijklmnopqrstuvwxyzABCDEFGHIJKLMNOPQRSTUVWXYZ0123456789_'')"

text \<open>
  The characters that \<open>.\<close> does not match (line feed and carriage return; the two other
  line terminators of the language are outside the 8-bit range).
\<close>

definition isLineTerminator :: "char \<Rightarrow> bool" where
  "isLineTerminator c = (c = CHR 0x0A \<or> c = CHR 0x0D)"

text \<open>The characters removed by \<open>String.prototype.trim\<close>, within the 8-bit range.\<close>

definition isWhiteSpace :: "char \<Rightarrow> bool" where
  "isWhiteSpace c =
     (c = CHR 0x09 \<or> c = CHR 0x0A \<or> c = CHR 0x0B \<or> c = CHR 0x0C \<or> c = CHR 0x0D
      \<or> c = CHR 0x20 \<or> c = CHR 0xA0)"

definition trim :: "string \<Rightarrow> string" where
  "trim s = rev (dropWhile isWhiteSpace (rev (dropWhile isWhiteSpace s)))"

text \<open>\<open>s.split(',')\<close>: the pieces between commas; the empty string gives one empty piece.\<close>

fun split_comma :: "string \<Rightarrow> string list" where
  "split_comma [] = [[]]"
| "split_comma (c # cs) =
     (if c = CHR '','' then [] # split_comma cs
      else (case split_comma cs of
              [] \<Rightarrow> [[c]]
            | w # ws \<Rightarrow> (c # w) # ws))"

text \<open>\<open>s.includes(sub)\<close>: \<open>sub\<close> occurs in \<open>s\<close> as a contiguous run.\<close>

fun includes_str :: "string \<Rightarrow> string \<Rightarrow> bool" where
  "includes_str [] sub = (sub = [])"
| "includes_str (c # cs) sub = (take (length sub) (c # cs) = sub \<or> includes_str cs sub)"

subsection \<open>Request validation: \<open>getContractSchema\<close>\<close>

text \<open>
  A query parameter of the request is absent, a string, or something that is not a string
  (a repeated parameter arrives as an array, a bracketed one as an object).
\<close>

datatype query_value = Absent | Text string | Structured

record query =
  q_address :: query_value
  q_network :: query_value

datatype network = mainnet | testnet

text \<open>The regular expression \<open>/^0x[a-fA-F0-9]{40}$/\<close>, as used by the schema and by
  \<open>isValidAddress\<close>.\<close>

definition isValidAddress :: "string \<Rightarrow> bool" where
  "isValidAddress address =
     (case address of
        c0 # c1 # digits \<Rightarrow>
          c0 = CHR ''0'' \<and> c1 = CHR ''x'' \<and> length digits = 40 \<and> list_all isHexDigit digits
      | _ \<Rightarrow> False)"

text \<open>
  An issue of a failed validation: the field it is about and what went wrong. Only the
  message of the pattern check is set by the handler's schema.
\<close>

datatype zod_issue =
    invalid_type string
  | invalid_string string string
  | invalid_enum_value string

definition address_issues :: "query_value \<Rightarrow> zod_issue list" where
  "address_issues v =
     (case v of
        Text s \<Rightarrow>
          if isValidAddress s then []
          else [invalid_string ''address'' ''Invalid contract address format'']
      | _ \<Rightarrow> [invalid_type ''address''])"

definition network_issues :: "query_value \<Rightarrow> zod_issue list" where
  "network_issues v =
     (case v of
        Absent \<Rightarrow> []
      | Text s \<Rightarrow> if s = ''mainnet'' \<or> s = ''testnet'' then [] else [invalid_enum_value ''network'']
      | Structured \<Rightarrow> [invalid_type ''network''])"

definition network_value :: "query_value \<Rightarrow> network" where
  "network_value v = (if v = Text ''testnet'' then testnet else mainnet)"

text \<open>
  \<open>getContractSchema.parse(req.query)\<close>: the issues of both fields when there are any
  (the \<open>ZodError\<close>), the address as it was sent and the network otherwise.
\<close>

definition getContractSchema_parse :: "query \<Rightarrow> zod_issue list + (string \<times> network)" where
  "getContractSchema_parse q =
     (let issues = address_issues (q_address q) @ network_issues (q_network q)
      in if issues \<noteq> [] then Inl issues
         else (case q_address q of
                 Text s \<Rightarrow> Inr (s, network_value (q_network q))
               | _ \<Rightarrow> Inl issues))"

subsection \<open>Selector extraction\<close>

text \<open>The pattern \<open>63([0-9a-fA-F]{8})\<close> matches at the start of the string.\<close>

definition push4At :: "string \<Rightarrow> bool" where
  "push4At s =
     (case s of
        c6 # c3 # rest \<Rightarrow>
          c6 = CHR ''6'' \<and> c3 = CHR ''3'' \<and> length (take 8 rest) = 8
          \<and> list_all isHexDigit (take 8 rest)
      | _ \<Rightarrow> False)"

text \<open>
  \<open>bytecode.match(/63([0-9a-fA-F]{8})/g)\<close>: all matches from left to right, the search
  resuming after the end of each match, so that matches never overlap.
\<close>

fun matches :: "string \<Rightarrow> string list" where
  "matches [] = []"
| "matches (c # cs) =
     (if push4At (c # cs) then take 10 (c # cs) # matches (drop 9 cs)
      else matches cs)"

text \<open>\<open>[...new Set(xs)]\<close>: each value once, in the order of its first occurrence.\<close>

definition newSet :: "'a list \<Rightarrow> 'a list" where
  "newSet xs = fold (\<lambda>x acc. if x \<in> set acc then acc else acc @ [x]) xs []"

definition uniqueSelectors :: "string \<Rightarrow> string list" where
  "uniqueSelectors bytecode = newSet (map (\<lambda>m. ''0x'' @ drop 2 m) (matches bytecode))"

subsection \<open>The environment: explorer, node and registry\<close>

text \<open>
  A request the handler issues: a \<open>GET\<close> of a URL, or the JSON-RPC \<open>POST\<close> with its
  method and parameters.
\<close>

datatype request = HttpGet string | JsonRpc string string "string list"

text \<open>
  What \<open>await response.json()\<close> gives: the promise rejects (the body is not JSON), the
  body is \<open>null\<close>, or it is a value of the interface the handler casts it to.
\<close>

datatype 'a json_body = BodyInvalid | BodyNull | Body 'a

text \<open>
  What \<open>await fetch(...)\<close> gives: the promise rejects (a network error), or a response
  with its \<open>ok\<close> flag, its \<open>statusText\<close> and its body.
\<close>

datatype 'a fetch_result = FetchRejects | FetchResponse bool string "'a json_body"

record EtherscanSourceCode =
  SourceCode :: string
  ABI :: string
  ContractName :: string
  Proxy :: string
  Implementation :: string

text \<open>
  The field \<open>result: any\<close> of an explorer answer, in the shapes the explorer gives it:
  missing (or \<open>null\<close>), a string (the ABI as JSON text, or an error text), or the array of
  source records of \<open>getsourcecode\<close>.
\<close>

datatype etherscan_result = NoResult | TextResult string | SourceList "EtherscanSourceCode list"

record EtherscanResponse =
  status :: string
  message :: string
  result :: etherscan_result

text \<open>The node's answer; \<open>result\<close> is missing from an error answer.\<close>

record RpcResponse =
  jsonrpc :: string
  rpc_id :: int
  rpc_result :: "string option"

text \<open>
  A candidate of the registry. The identifier is the integer as the registry wrote it;
  the handler sees the number read from it.
\<close>

record FourByteResult =
  sig_id :: int
  created_at :: string
  text_signature :: string
  hex_signature :: string
  bytes_signature :: string

record FourByteResponse =
  sig_count :: int
  next_page :: "string option"
  previous_page :: "string option"
  results :: "FourByteResult list"

text \<open>
  The environment of one call of the handler. Each of the three services answers a
  request given the requests issued so far. \<open>JSON_parse\<close> is the platform's parser
  (\<open>None\<close> when it throws) into the platform's values \<open>'j\<close>, which the handler never
  inspects, and \<open>JSON_stringify\<close> the platform's serialiser, with which \<open>res.json\<close>
  writes the body. The last three fields are the variables of \<open>process.env\<close>.
\<close>

record 'j env =
  explorer :: "request list \<Rightarrow> request \<Rightarrow> EtherscanResponse fetch_result"
  rpc :: "request list \<Rightarrow> request \<Rightarrow> RpcResponse fetch_result"
  registry :: "request list \<Rightarrow> request \<Rightarrow> FourByteResponse fetch_result"
  JSON_parse :: "string \<Rightarrow> 'j option"
  JSON_stringify :: "'j \<Rightarrow> string"
  BASESCAN_API_KEY :: "string option"
  BASE_SEPOLIA_RPC_URL :: "string option"
  BASE_RPC_URL :: "string option"

text \<open>The exceptions: \<open>new Error(message)\<close> thrown by the handler, and the platform's.\<close>

datatype js_error = Error string | TypeError | SyntaxError

subsection \<open>The response\<close>

record abi_input =
  arg_type :: string
  arg_name :: string

record function_descriptor =
  fn_type :: string
  fn_name :: string
  inputs :: "abi_input list"
  stateMutability :: string
  selector :: string

datatype 'j abi_value = ParsedAbi 'j | RecoveredAbi "function_descriptor list"

record 'j contract_data =
  address :: string
  name :: string
  abi :: "'j abi_value"
  isVerified :: bool
  isRecovered :: "bool option"

record 'j response_body =
  success :: bool
  data :: "'j contract_data option"
  error :: "string option"
  code :: "string option"
  details :: "zod_issue list option"

record 'j response =
  http_status :: nat
  body :: "'j response_body"

subsection \<open>Tier 1: the verified ABI\<close>

definition chainId :: "network \<Rightarrow> string" where
  "chainId nw = (if nw = testnet then ''84532'' else ''8453'')"

definition apiKeyParam :: "'j env \<Rightarrow> string" where
  "apiKeyParam env =
     (case BASESCAN_API_KEY env of
        None \<Rightarrow> []
      | Some apiKey \<Rightarrow> if apiKey \<noteq> [] then ''&apikey='' @ apiKey else [])"

definition v2Url :: "'j env \<Rightarrow> network \<Rightarrow> string \<Rightarrow> string" where
  "v2Url env nw addr =
     ''https://api.etherscan.io/v2/api?chainid='' @ chainId nw
     @ ''&module=contract&action=getabi&address='' @ addr @ apiKeyParam env"

definition sourceUrl :: "'j env \<Rightarrow> network \<Rightarrow> string \<Rightarrow> string" where
  "sourceUrl env nw addr =
     ''https://api.etherscan.io/v2/api?chainid='' @ chainId nw
     @ ''&module=contract&action=getsourcecode&address='' @ addr @ apiKeyParam env"

definition implUrl :: "'j env \<Rightarrow> network \<Rightarrow> string \<Rightarrow> string" where
  "implUrl env nw impl =
     ''https://api.etherscan.io/v2/api?chainid='' @ chainId nw
     @ ''&module=contract&action=getabi&address='' @ impl @ apiKeyParam env"

text \<open>\<open>!data.result\<close> is false: the result is a non-empty string or an array.\<close>

definition truthy :: "etherscan_result \<Rightarrow> bool" where
  "truthy r = (case r of NoResult \<Rightarrow> False | TextResult s \<Rightarrow> s \<noteq> [] | SourceList xs \<Rightarrow> True)"

text \<open>
  \<open>JSON.parse(data.result)\<close>, \<open>None\<close> when it throws. An array of records is first turned
  into a string, which is never JSON text.
\<close>

definition parse_result :: "'j env \<Rightarrow> etherscan_result \<Rightarrow> 'j option" where
  "parse_result env r = (case r of TextResult s \<Rightarrow> JSON_parse env s | _ \<Rightarrow> None)"

text \<open>
  The lookup of the implementation's ABI: the exception that leaves the block, no ABI
  when a condition does not hold, or the parsed ABI.
\<close>

definition implAbi :: "'j env \<Rightarrow> request list \<Rightarrow> request \<Rightarrow> js_error + 'j option" where
  "implAbi env tr req =
     (case explorer env tr req of
        FetchRejects \<Rightarrow> Inl TypeError
      | FetchResponse ok statusText json \<Rightarrow>
          if ok then
            (case json of
               BodyInvalid \<Rightarrow> Inl SyntaxError
             | BodyNull \<Rightarrow> Inl TypeError
             | Body implData \<Rightarrow>
                 if status implData = ''1'' \<and> truthy (result implData) then
                   (case parse_result env (result implData) of
                      None \<Rightarrow> Inl SyntaxError
                    | Some parsed \<Rightarrow> Inr (Some parsed))
                 else Inr None)
          else Inr None)"

text \<open>
  The lookup of the source record: the exception that leaves the block, no record when
  a condition does not hold, or the first record of the answer.
\<close>

definition sourceRecord ::
  "'j env \<Rightarrow> request list \<Rightarrow> request \<Rightarrow> js_error + EtherscanSourceCode option" where
  "sourceRecord env tr req =
     (case explorer env tr req of
        FetchRejects \<Rightarrow> Inl TypeError
      | FetchResponse ok statusText json \<Rightarrow>
          if ok then
            (case json of
               BodyInvalid \<Rightarrow> Inl SyntaxError
             | BodyNull \<Rightarrow> Inl TypeError
             | Body sourceData \<Rightarrow>
                 (case result sourceData of
                    SourceList (r # rs) \<Rightarrow>
                      if status sourceData = ''1'' then Inr (Some r) else Inr None
                  | _ \<Rightarrow> Inr None))
          else Inr None)"

text \<open>\<open>result.ContractName || 'Unknown Contract'\<close>.\<close>

definition contractNameOf :: "EtherscanSourceCode \<Rightarrow> string" where
  "contractNameOf r = (if ContractName r \<noteq> [] then ContractName r else ''Unknown Contract'')"

text \<open>
  The block that fetches the contract name and checks for a proxy. It works on the two
  variables \<open>contractName\<close> and \<open>abi\<close>; an exception inside it is caught and leaves both as
  they are at that moment. The result is the two variables, the exception if there was
  one, and the requests issued so far.
\<close>

definition contractDetails ::
  "'j env \<Rightarrow> network \<Rightarrow> string \<Rightarrow> 'j \<Rightarrow> request list
     \<Rightarrow> string \<times> 'j \<times> js_error option \<times> request list" where
  "contractDetails env nw addr abi0 tr =
     (let sourceReq = HttpGet (sourceUrl env nw addr);
          tr1 = tr @ [sourceReq]
      in case sourceRecord env tr sourceReq of
           Inl e \<Rightarrow> (''Unknown Contract'', abi0, Some e, tr1)
         | Inr None \<Rightarrow> (''Unknown Contract'', abi0, None, tr1)
         | Inr (Some r) \<Rightarrow>
             if Proxy r = ''1'' \<and> Implementation r \<noteq> [] then
               (let implReq = HttpGet (implUrl env nw (Implementation r));
                    tr2 = tr1 @ [implReq]
                in case implAbi env tr1 implReq of
                     Inl e \<Rightarrow> (contractNameOf r, abi0, Some e, tr2)
                   | Inr None \<Rightarrow> (contractNameOf r, abi0, None, tr2)
                   | Inr (Some parsed) \<Rightarrow> (contractNameOf r @ '' (Proxy)'', parsed, None, tr2))
             else (contractNameOf r, abi0, None, tr1))"

definition verifiedResponse :: "string \<Rightarrow> string \<Rightarrow> 'j \<Rightarrow> 'j response" where
  "verifiedResponse addr contractName parsed =
     \<lparr>http_status = 200,
      body = \<lparr>success = True,
              data = Some \<lparr>address = addr, name = contractName, abi = ParsedAbi parsed,
                           isVerified = True, isRecovered = None\<rparr>,
              error = None, code = None, details = None\<rparr>\<rparr>"

text \<open>
  Tier 1, the first \<open>try\<close> block: the response it sends, or the exception that reaches
  its \<open>catch\<close>; with the requests issued.
\<close>

definition tier1 ::
  "'j env \<Rightarrow> string \<Rightarrow> network \<Rightarrow> (js_error + 'j response) \<times> request list" where
  "tier1 env addr nw =
     (let req = HttpGet (v2Url env nw addr)
      in case explorer env [] req of
           FetchRejects \<Rightarrow> (Inl TypeError, [req])
         | FetchResponse ok statusText json \<Rightarrow>
             if \<not> ok then (Inl (Error (''Etherscan API error: '' @ statusText)), [req])
             else
               (case json of
                  BodyInvalid \<Rightarrow> (Inl SyntaxError, [req])
                | BodyNull \<Rightarrow> (Inl TypeError, [req])
                | Body d \<Rightarrow>
                    if status d \<noteq> ''1'' \<or> \<not> truthy (result d) then
                      (Inl (Error (if message d \<noteq> [] then message d
                                   else ''Contract not verified'')), [req])
                    else
                      (case parse_result env (result d) of
                         None \<Rightarrow> (Inl (Error ''Failed to parse Verified ABI''), [req])
                       | Some parsed \<Rightarrow>
                           (case contractDetails env nw addr parsed [req] of
                              (contractName, abi1, caught, tr) \<Rightarrow>
                                (Inr (verifiedResponse addr contractName abi1), tr)))))"

subsection \<open>Tier 2: recovery from the bytecode\<close>

text \<open>\<open>process.env.X || fallback\<close>.\<close>

definition env_or :: "string option \<Rightarrow> string \<Rightarrow> string" where
  "env_or v fallback = (case v of None \<Rightarrow> fallback | Some s \<Rightarrow> if s \<noteq> [] then s else fallback)"

definition rpcUrl :: "'j env \<Rightarrow> network \<Rightarrow> string" where
  "rpcUrl env nw =
     (let url = (if nw = testnet then env_or (BASE_SEPOLIA_RPC_URL env) ''https://sepolia.base.org''
                 else env_or (BASE_RPC_URL env) ''https://mainnet.base.org'')
      in if includes_str url ''basescan.org'' \<or> includes_str url ''etherscan.io'' then
           (if nw = testnet then ''https://sepolia.base.org'' else ''https://mainnet.base.org'')
         else url)"

text \<open>
  The pattern \<open>/^([a-zA-Z0-9_]+)\((.*)\)$/\<close>: a non-empty run of name characters, an
  opening parenthesis, anything without a line terminator, and a closing parenthesis as
  the last character. The two groups are the name and what stands between the first
  opening parenthesis and the last character.
\<close>

definition nameMatch :: "string \<Rightarrow> (string \<times> string) option" where
  "nameMatch bestSig =
     (let nm = takeWhile isNameChar bestSig;
          rest = dropWhile isNameChar bestSig
      in case rest of
           [] \<Rightarrow> None
         | c # tl_rest \<Rightarrow>
             if nm \<noteq> [] \<and> c = CHR ''('' \<and> tl_rest \<noteq> [] \<and> last tl_rest = CHR '')''
                \<and> \<not> list_ex isLineTerminator (butlast tl_rest)
             then Some (nm, butlast tl_rest)
             else None)"

text \<open>The generic placeholder for a selector.\<close>

definition placeholder :: "string \<Rightarrow> function_descriptor" where
  "placeholder sel =
     \<lparr>fn_type = ''function'', fn_name = ''unknown_'' @ drop 2 sel, inputs = [],
      stateMutability = ''nonpayable'', selector = sel\<rparr>"

text \<open>The descriptor built from a signature text that matched, with its two groups.\<close>

definition descriptor :: "string \<Rightarrow> string \<Rightarrow> string \<Rightarrow> function_descriptor" where
  "descriptor sel nm group2 =
     (let args = (if group2 \<noteq> [] then split_comma group2 else [])
      in \<lparr>fn_type = ''function'', fn_name = nm,
          inputs = map (\<lambda>t. \<lparr>arg_type = trim t, arg_name = []\<rparr>) args,
          stateMutability = ''nonpayable'', selector = sel\<rparr>)"

text \<open>The number of binary digits of a natural number.\<close>

fun bitLength :: "nat \<Rightarrow> nat" where
  "bitLength n = (if n = 0 then 0 else Suc (bitLength (n div 2)))"

declare bitLength.simps [simp del]

text \<open>
  The JavaScript number that \<open>sigRes.json()\<close> reads from an integer identifier: the
  nearest double, ties to the even mantissa. Up to \<open>2^53\<close> in magnitude this is the
  integer itself; beyond, the integer is rounded to 53 significant binary digits; and
  what rounds to \<open>2^1024\<close> or more is \<open>Infinity\<close>, for which \<open>2^1024\<close> stands here.
\<close>

definition toNumber :: "int \<Rightarrow> int" where
  "toNumber n =
     (let m = nat \<bar>n\<bar>
      in if m < 2 ^ 53 then n
         else
           (let e = bitLength m - 53;
                q = m div 2 ^ e;
                r = m mod 2 ^ e;
                q' = (if 2 ^ e < 2 * r \<or> (2 * r = 2 ^ e \<and> odd q) then q + 1 else q);
                v = (if 2 ^ 1024 \<le> q' * 2 ^ e then 2 ^ 1024 else q' * 2 ^ e)
            in sgn n * int v))"

text \<open>
  \<open>sigData.results.sort((a, b) => a.id - b.id)[0].text_signature\<close>: the identifiers are
  compared as the numbers read (the difference of two doubles is negative, zero or
  \<open>NaN\<close>, or positive as the first is smaller than, equal to, or larger than the
  second), the sort is stable, and reading a field of a missing first element throws.
\<close>

definition bestSig :: "FourByteResult list \<Rightarrow> js_error + string" where
  "bestSig rs =
     (case sort_key (\<lambda>r. toNumber (sig_id r)) rs of
        [] \<Rightarrow> Inl TypeError
      | first # others \<Rightarrow> Inr (text_signature first))"

text \<open>How the \<open>try\<close> block of \<open>fetchSignature\<close> ends.\<close>

datatype 'a completion = Returns 'a | Throws js_error | FallsThrough

definition sigUrl :: "string \<Rightarrow> string" where
  "sigUrl sel = ''https://www.4byte.directory/api/v1/signatures/?hex_signature='' @ sel"

definition fetchSignature_try ::
  "'j env \<Rightarrow> request list \<Rightarrow> string \<Rightarrow> function_descriptor option completion" where
  "fetchSignature_try env tr sel =
     (case registry env tr (HttpGet (sigUrl sel)) of
        FetchRejects \<Rightarrow> Throws TypeError
      | FetchResponse ok statusText json \<Rightarrow>
          if \<not> ok then Returns None
          else
            (case json of
               BodyInvalid \<Rightarrow> Throws SyntaxError
             | BodyNull \<Rightarrow> Throws TypeError
             | Body sigData \<Rightarrow>
                 if results sigData \<noteq> [] then
                   (case bestSig (results sigData) of
                      Inl e \<Rightarrow> Throws e
                    | Inr best \<Rightarrow>
                        (case nameMatch best of
                           Some (nm, group2) \<Rightarrow> Returns (Some (descriptor sel nm group2))
                         | None \<Rightarrow> FallsThrough))
                 else FallsThrough))"

text \<open>
  \<open>fetchSignature\<close>: \<open>None\<close> is JavaScript's \<open>null\<close>. The exception is ignored and the
  placeholder returned, as when the block falls through.
\<close>

definition fetchSignature :: "'j env \<Rightarrow> request list \<Rightarrow> string \<Rightarrow> function_descriptor option" where
  "fetchSignature env tr sel =
     (case fetchSignature_try env tr sel of
        Returns r \<Rightarrow> r
      | Throws e \<Rightarrow> Some (placeholder sel)
      | FallsThrough \<Rightarrow> Some (placeholder sel))"

text \<open>
  \<open>await Promise.all(uniqueSelectors.map(fetchSignature))\<close>: the requests are issued in
  the order of the selectors, and the results come in that order.
\<close>

fun promiseAll ::
  "'j env \<Rightarrow> request list \<Rightarrow> string list \<Rightarrow> function_descriptor option list \<times> request list" where
  "promiseAll env tr [] = ([], tr)"
| "promiseAll env tr (sel # sels) =
     (case promiseAll env (tr @ [HttpGet (sigUrl sel)]) sels of
        (rs, tr') \<Rightarrow> (fetchSignature env tr sel # rs, tr'))"

text \<open>\<open>results.filter(r => r !== null)\<close>.\<close>

definition recoveredAbi :: "function_descriptor option list \<Rightarrow> function_descriptor list" where
  "recoveredAbi rs = map the (filter (\<lambda>r. r \<noteq> None) rs)"

definition recoveredResponse :: "string \<Rightarrow> function_descriptor list \<Rightarrow> 'j response" where
  "recoveredResponse addr fs =
     \<lparr>http_status = 200,
      body = \<lparr>success = True,
              data = Some \<lparr>address = addr, name = ''Unverified Contract (Recovered)'',
                           abi = RecoveredAbi fs, isVerified = False,
                           isRecovered = Some True\<rparr>,
              error = None, code = None, details = None\<rparr>\<rparr>"

text \<open>\<open>codeData?.result\<close>, with \<open>None\<close> for \<open>undefined\<close>.\<close>

definition bytecodeOf :: "RpcResponse json_body \<Rightarrow> string option" where
  "bytecodeOf json = (case json of Body codeData \<Rightarrow> rpc_result codeData | _ \<Rightarrow> None)"

text \<open>
  Tier 2, the second \<open>try\<close> block, entered with the requests issued so far: the response
  it sends, or the exception that reaches its \<open>catch\<close>.
\<close>

definition tier2 ::
  "'j env \<Rightarrow> string \<Rightarrow> network \<Rightarrow> request list \<Rightarrow> (js_error + 'j response) \<times> request list" where
  "tier2 env addr nw tr =
     (let req = JsonRpc (rpcUrl env nw) ''eth_getCode'' [addr, ''latest''];
          tr1 = tr @ [req]
      in case rpc env tr req of
           FetchRejects \<Rightarrow> (Inl TypeError, tr1)
         | FetchResponse ok statusText json \<Rightarrow>
             if json = BodyInvalid then (Inl SyntaxError, tr1)
             else
               (case bytecodeOf json of
                  None \<Rightarrow> (Inl (Error ''No bytecode found at address''), tr1)
                | Some bytecode \<Rightarrow>
                    if bytecode = [] \<or> bytecode = ''0x'' then
                      (Inl (Error ''No bytecode found at address''), tr1)
                    else if uniqueSelectors bytecode = [] then
                      (Inl (Error ''No selectors found in bytecode''), tr1)
                    else
                      (case promiseAll env tr1 (uniqueSelectors bytecode) of
                         (rs, tr2) \<Rightarrow> (Inr (recoveredResponse addr (recoveredAbi rs)), tr2))))"

subsection \<open>The handler\<close>

definition invalidRequest :: "zod_issue list \<Rightarrow> 'j response" where
  "invalidRequest issues =
     \<lparr>http_status = 400,
      body = \<lparr>success = False, data = None, error = Some ''Invalid request'', code = None,
              details = Some issues\<rparr>\<rparr>"

definition manualAbiRequired :: "'j response" where
  "manualAbiRequired =
     \<lparr>http_status = 404,
      body = \<lparr>success = False, data = None,
              error = Some ''Contract not verified and recovery failed'',
              code = Some ''REQUIRE_MANUAL_ABI'', details = None\<rparr>\<rparr>"

text \<open>
  \<open>getContract\<close>: the response sent and the requests issued. Validation comes first; its
  failure is answered at once. No other exception reaches the outer \<open>catch\<close>, since each
  tier catches its own.
\<close>

definition getContract :: "'j env \<Rightarrow> query \<Rightarrow> 'j response \<times> request list" where
  "getContract env q =
     (case getContractSchema_parse q of
        Inl issues \<Rightarrow> (invalidRequest issues, [])
      | Inr (addr, nw) \<Rightarrow>
          (case tier1 env addr nw of
             (Inr res, tr) \<Rightarrow> (res, tr)
           | (Inl tier1Error, tr) \<Rightarrow>
               (case tier2 env addr nw tr of
                  (Inr res, tr') \<Rightarrow> (res, tr')
                | (Inl tier2Error, tr') \<Rightarrow> (manualAbiRequired, tr'))))"

subsection \<open>Notions used in the statements\<close>

text \<open>
  The canonical form of an address in the words of the specification: the prefix
  \<open>0x\<close> and exactly 40 hex digits, all of them lowercase.
\<close>

definition canonicalAddress :: "string \<Rightarrow> bool" where
  "canonicalAddress s =
     (take 2 s = ''0x'' \<and> length (drop 2 s) = 40
      \<and> list_all (\<lambda>c. c \<in> set ''0123456789abcdef'') (drop 2 s))"


text \<open>
  The offsets at which the global search finds its matches: after a match at an offset
  the search resumes ten characters further, otherwise at the next character.
\<close>

fun matchOffsets :: "string \<Rightarrow> nat list" where
  "matchOffsets [] = []"
| "matchOffsets (c # cs) =
     (if push4At (c # cs) then 0 # map (\<lambda>j. j + 10) (matchOffsets (drop 9 cs))
      else map Suc (matchOffsets cs))"

text \<open>
  The requests issued when the lookup of the \<open>i\<close>-th selector starts: those issued
  before the fan-out, and the lookups of the selectors before it.
\<close>

definition issuedBefore :: "request list \<Rightarrow> string list \<Rightarrow> nat \<Rightarrow> request list" where
  "issuedBefore tr sels i = tr @ map (\<lambda>s. HttpGet (sigUrl s)) (take i sels)"

text \<open>The registry answers the lookup of a selector with a response that is not \<open>ok\<close>.\<close>

definition refused :: "'j env \<Rightarrow> request list \<Rightarrow> string \<Rightarrow> bool" where
  "refused env tr sel =
     (case registry env tr (HttpGet (sigUrl sel)) of
        FetchRejects \<Rightarrow> False
      | FetchResponse ok statusText json \<Rightarrow> \<not> ok)"

subsection \<open>Example environments\<close>

text \<open>
  Concrete environments on which the statements below are instantiated. The platform's
  values are represented by their JSON text, and the example parser knows two texts.
\<close>

definition exampleParse :: "string \<Rightarrow> string option" where
  "exampleParse s = (if s = ''[1]'' \<or> s = ''[2]'' then Some s else None)"

definition exampleEnv ::
  "(request list \<Rightarrow> request \<Rightarrow> EtherscanResponse fetch_result)
     \<Rightarrow> (request list \<Rightarrow> request \<Rightarrow> RpcResponse fetch_result)
     \<Rightarrow> (request list \<Rightarrow> request \<Rightarrow> FourByteResponse fetch_result) \<Rightarrow> string env" where
  "exampleEnv ex rp rg =
     \<lparr>explorer = ex, rpc = rp, registry = rg, JSON_parse = exampleParse,
      JSON_stringify = (\<lambda>a. a),
      BASESCAN_API_KEY = None, BASE_SEPOLIA_RPC_URL = None, BASE_RPC_URL = None\<rparr>"

definition unreachable :: "request list \<Rightarrow> request \<Rightarrow> 'a fetch_result" where
  "unreachable tr req = FetchRejects"

definition abiAnswer :: "string \<Rightarrow> EtherscanResponse fetch_result" where
  "abiAnswer txt =
     FetchResponse True ''OK''
       (Body \<lparr>status = ''1'', message = ''OK'', result = TextResult txt\<rparr>)"

definition sourceOf :: "string \<Rightarrow> string \<Rightarrow> string \<Rightarrow> EtherscanSourceCode" where
  "sourceOf nm flag impl =
     \<lparr>SourceCode = [], ABI = [], ContractName = nm, Proxy = flag, Implementation = impl\<rparr>"

definition sourceAnswer :: "string \<Rightarrow> string \<Rightarrow> string \<Rightarrow> EtherscanResponse fetch_result" where
  "sourceAnswer nm flag impl =
     FetchResponse True ''OK''
       (Body \<lparr>status = ''1'', message = ''OK'', result = SourceList [sourceOf nm flag impl]\<rparr>)"

definition exampleAddress :: string where
  "exampleAddress = ''0xAbCdEf0123456789aBcDeF0123456789abcdef01''"

definition exampleImplementation :: string where
  "exampleImplementation = ''0xbbbbbbbbbbbbbbbbbbbbbbbbbbbbbbbbbbbbbbbb''"

definition exampleQuery :: query where
  "exampleQuery = \<lparr>q_address = Text exampleAddress, q_network = Absent\<rparr>"

text \<open>A verified contract that is not a proxy.\<close>

definition plainExplorer :: "request list \<Rightarrow> request \<Rightarrow> EtherscanResponse fetch_result" where
  "plainExplorer tr req =
     (case tr of [] \<Rightarrow> abiAnswer ''[1]'' | r # rs \<Rightarrow> sourceAnswer ''Token'' ''0'' [])"

definition plainEnv :: "string env" where
  "plainEnv = exampleEnv plainExplorer unreachable unreachable"

text \<open>A verified proxy with a verified implementation.\<close>

definition proxyExplorer :: "request list \<Rightarrow> request \<Rightarrow> EtherscanResponse fetch_result" where
  "proxyExplorer tr req =
     (case tr of
        [] \<Rightarrow> abiAnswer ''[1]''
      | [r1] \<Rightarrow> sourceAnswer ''Vault'' ''1'' exampleImplementation
      | r1 # r2 # rs \<Rightarrow> abiAnswer ''[2]'')"

definition proxyEnv :: "string env" where
  "proxyEnv = exampleEnv proxyExplorer unreachable unreachable"

text \<open>A verified proxy whose implementation lookup is answered with an error status.\<close>

definition brokenProxyExplorer :: "request list \<Rightarrow> request \<Rightarrow> EtherscanResponse fetch_result" where
  "brokenProxyExplorer tr req =
     (case tr of
        [] \<Rightarrow> abiAnswer ''[1]''
      | [r1] \<Rightarrow> sourceAnswer ''Vault'' ''1'' exampleImplementation
      | r1 # r2 # rs \<Rightarrow> FetchResponse False ''Too Many Requests'' BodyInvalid)"

definition brokenProxyEnv :: "string env" where
  "brokenProxyEnv = exampleEnv brokenProxyExplorer unreachable unreachable"

text \<open>A verified contract whose source lookup meets a network error.\<close>

definition namelessExplorer :: "request list \<Rightarrow> request \<Rightarrow> EtherscanResponse fetch_result" where
  "namelessExplorer tr req = (case tr of [] \<Rightarrow> abiAnswer ''[1]'' | r # rs \<Rightarrow> FetchRejects)"

definition namelessEnv :: "string env" where
  "namelessEnv = exampleEnv namelessExplorer unreachable unreachable"

text \<open>An address without code, unknown to the explorer.\<close>

definition emptyCodeRpc :: "request list \<Rightarrow> request \<Rightarrow> RpcResponse fetch_result" where
  "emptyCodeRpc tr req =
     FetchResponse True ''OK'' (Body \<lparr>jsonrpc = ''2.0'', rpc_id = 1, rpc_result = Some ''0x''\<rparr>)"

definition emptyCodeEnv :: "string env" where
  "emptyCodeEnv = exampleEnv unreachable emptyCodeRpc unreachable"

text \<open>An unverified contract whose bytecode pushes ten different selectors.\<close>

definition exampleSelectors :: "string list" where
  "exampleSelectors =
     [''0x00000001'',
      ''0x00000002'',
      ''0x00000003'',
      ''0x00000004'',
      ''0x00000005'',
      ''0x00000006'',
      ''0x00000007'',
      ''0x00000008'',
      ''0x00000009'',
      ''0x0000000a'']"

definition exampleBytecode :: string where
  "exampleBytecode =
     ''0x630000000163000000026300000003630000000463000000056300000006630000000763000000086300000009630000000a''"

definition codeRpc :: "request list \<Rightarrow> request \<Rightarrow> RpcResponse fetch_result" where
  "codeRpc tr req =
     FetchResponse True ''OK''
       (Body \<lparr>jsonrpc = ''2.0'', rpc_id = 1, rpc_result = Some exampleBytecode\<rparr>)"

definition candidate :: "int \<Rightarrow> string \<Rightarrow> FourByteResult" where
  "candidate i txt =
     \<lparr>sig_id = i, created_at = [], text_signature = txt, hex_signature = [],
      bytes_signature = []\<rparr>"

definition candidates :: "FourByteResult list \<Rightarrow> FourByteResponse fetch_result" where
  "candidates cs =
     FetchResponse True ''OK''
       (Body \<lparr>sig_count = int (length cs), next_page = None, previous_page = None,
              results = cs\<rparr>)"

text \<open>
  A registry where three of the ten lookups fail: one by a network error, two with no
  match. The other seven find one signature.
\<close>

definition lossyRegistry :: "request list \<Rightarrow> request \<Rightarrow> FourByteResponse fetch_result" where
  "lossyRegistry tr req =
     (if req = HttpGet (sigUrl ''0x00000003'') then FetchRejects
      else if req = HttpGet (sigUrl ''0x00000006'') \<or> req = HttpGet (sigUrl ''0x00000009'')
      then candidates []
      else candidates [candidate 145 ''transfer(address,uint256)''])"

definition lossyEnv :: "string env" where
  "lossyEnv = exampleEnv unreachable codeRpc lossyRegistry"

text \<open>A registry that answers three of the ten lookups with an error status.\<close>

definition refusingRegistry :: "request list \<Rightarrow> request \<Rightarrow> FourByteResponse fetch_result" where
  "refusingRegistry tr req =
     (if req = HttpGet (sigUrl ''0x00000003'') \<or> req = HttpGet (sigUrl ''0x00000006'')
         \<or> req = HttpGet (sigUrl ''0x00000009'')
      then FetchResponse False ''Too Many Requests'' BodyInvalid
      else candidates [candidate 145 ''transfer(address,uint256)''])"

definition refusingEnv :: "string env" where
  "refusingEnv = exampleEnv unreachable codeRpc refusingRegistry"

text \<open>A registry that knows two signatures for every selector, the older one listed last.\<close>

definition collidingRegistry :: "request list \<Rightarrow> request \<Rightarrow> FourByteResponse fetch_result" where
  "collidingRegistry tr req =
     candidates [candidate 5 ''many_msg_babbage(bytes1)'', candidate 2 ''transfer(address,uint256)'']"

definition collidingEnv :: "string env" where
  "collidingEnv = exampleEnv unreachable codeRpc collidingRegistry"








section \<open>Properties\<close>

subsection \<open>Validation\<close>

lemma isValidAddress_iff:
  "isValidAddress s \<longleftrightarrow>
     (\<exists>digits. s = ''0x'' @ digits \<and> length digits = 40 \<and> list_all isHexDigit digits)"
  by (auto simp: isValidAddress_def split: list.splits)

lemma parse_Inr:
  "getContractSchema_parse q = Inr (addr, nw) \<Longrightarrow> q_address q = Text addr \<and> isValidAddress addr"
  by (auto simp: getContractSchema_parse_def address_issues_def Let_def
        split: if_splits query_value.splits)

lemma exampleAddress_valid: "isValidAddress exampleAddress"
  by (simp add: isValidAddress_def exampleAddress_def isHexDigit_def)

lemma exampleQuery_parse:
  "getContractSchema_parse exampleQuery = Inr (exampleAddress, mainnet)"
  by (simp add: getContractSchema_parse_def exampleQuery_def address_issues_def
        network_issues_def network_value_def exampleAddress_valid Let_def)

text \<open>
  C3, as the code has it. The schema accepts an address exactly when it is \<open>0x\<close> followed
  by exactly 40 hex digits, each of them a digit or a letter \<open>a\<close> to \<open>f\<close> of either
  case; the accepted address is passed on as it was sent. Any other string fails
  validation with the issue of the address pattern.
\<close>

theorem address_pattern_either_case:
  "getContractSchema_parse \<lparr>q_address = Text s, q_network = v\<rparr> =
     (if \<exists>digits. s = ''0x'' @ digits \<and> length digits = 40 \<and> list_all isHexDigit digits
      then (if network_issues v = [] then Inr (s, network_value v) else Inl (network_issues v))
      else Inl (invalid_string ''address'' ''Invalid contract address format''
                # network_issues v))"
  unfolding isValidAddress_iff [symmetric]
  by (simp add: getContractSchema_parse_def address_issues_def Let_def)

text \<open>The statement at a mixed-case address, which is accepted, and at a short one.\<close>

theorem address_pattern_either_case_witness:
  "getContractSchema_parse \<lparr>q_address = Text exampleAddress, q_network = Absent\<rparr>
     = Inr (exampleAddress, mainnet)
   \<and> getContractSchema_parse \<lparr>q_address = Text ''0x123'', q_network = Absent\<rparr>
     = Inl [invalid_string ''address'' ''Invalid contract address format'']"
proof -
  have ok: "\<exists>digits. exampleAddress = ''0x'' @ digits \<and> length digits = 40
              \<and> list_all isHexDigit digits"
    using exampleAddress_valid by (simp add: isValidAddress_iff)
  have short: "\<not> (\<exists>digits. ''0x123'' = ''0x'' @ digits \<and> length digits = 40
              \<and> list_all isHexDigit digits)"
    by auto
  from ok short
    address_pattern_either_case [of exampleAddress Absent]
    address_pattern_either_case [of "''0x123''" Absent]
  show ?thesis
    by (simp add: network_issues_def network_value_def)
qed

text \<open>
  C3 as stated fails: an address written in uppercase is accepted although it is not in
  the canonical lowercase form.
\<close>

theorem uppercase_address_accepted:
  "getContractSchema_parse
     \<lparr>q_address = Text ''0xAAAAAAAAAAAAAAAAAAAAAAAAAAAAAAAAAAAAAAAA'', q_network = Absent\<rparr>
     = Inr (''0xAAAAAAAAAAAAAAAAAAAAAAAAAAAAAAAAAAAAAAAA'', mainnet)
   \<and> \<not> canonicalAddress ''0xAAAAAAAAAAAAAAAAAAAAAAAAAAAAAAAAAAAAAAAA''"
  by (simp add: getContractSchema_parse_def address_issues_def network_issues_def
        network_value_def isValidAddress_def isHexDigit_def canonicalAddress_def)

text \<open>
  C9. A request whose address string does not match the address pattern is answered
  with status 400, \<open>success\<close> false, the error \<open>Invalid request\<close> and the issues of the
  fields; and the handler has issued no request to the explorer, the node or the
  registry.
\<close>

theorem invalid_address_rejected:
  assumes "\<not> isValidAddress s"
  shows "http_status (fst (getContract env \<lparr>q_address = Text s, q_network = v\<rparr>)) = 400
       \<and> success (body (fst (getContract env \<lparr>q_address = Text s, q_network = v\<rparr>))) = False
       \<and> error (body (fst (getContract env \<lparr>q_address = Text s, q_network = v\<rparr>)))
           = Some ''Invalid request''
       \<and> details (body (fst (getContract env \<lparr>q_address = Text s, q_network = v\<rparr>)))
           = Some (invalid_string ''address'' ''Invalid contract address format''
                   # network_issues v)
       \<and> snd (getContract env \<lparr>q_address = Text s, q_network = v\<rparr>) = []"
  using assms
  by (simp add: getContract_def getContractSchema_parse_def address_issues_def Let_def
        invalidRequest_def)

text \<open>The statement at an address of 39 digits, in an environment that would answer.\<close>

theorem invalid_address_rejected_witness:
  "\<not> isValidAddress ''0x000000000000000000000000000000000000000''
   \<and> http_status (fst (getContract plainEnv
        \<lparr>q_address = Text ''0x000000000000000000000000000000000000000'',
         q_network = Absent\<rparr>)) = 400
   \<and> snd (getContract plainEnv
        \<lparr>q_address = Text ''0x000000000000000000000000000000000000000'',
         q_network = Absent\<rparr>) = []"
proof -
  have h: "\<not> isValidAddress ''0x000000000000000000000000000000000000000''"
    by (simp add: isValidAddress_def)
  from h invalid_address_rejected [OF h, of plainEnv Absent] show ?thesis by simp
qed

subsection \<open>Selector extraction\<close>

lemma newSet_fold_distinct:
  "distinct acc \<Longrightarrow> distinct (fold (\<lambda>x acc. if x \<in> set acc then acc else acc @ [x]) xs acc)"
  by (induction xs arbitrary: acc) auto

lemma newSet_fold_set:
  "set (fold (\<lambda>x acc. if x \<in> set acc then acc else acc @ [x]) xs acc) = set acc \<union> set xs"
  by (induction xs arbitrary: acc) auto

lemma distinct_newSet: "distinct (newSet xs)"
  by (simp add: newSet_def newSet_fold_distinct)

lemma set_newSet: "set (newSet xs) = set xs"
  by (simp add: newSet_def newSet_fold_set)

lemma push4At_take:
  assumes "push4At s"
  shows "\<exists>h. take 10 s = ''63'' @ h \<and> length h = 8 \<and> list_all isHexDigit h"
proof -
  from assms obtain rest where s: "s = CHR ''6'' # CHR ''3'' # rest"
    and len: "length (take 8 rest) = 8" and hex: "list_all isHexDigit (take 8 rest)"
    by (auto simp: push4At_def split: list.splits)
  have "take 10 s = ''63'' @ take 8 rest" by (simp add: s)
  with len hex show ?thesis by blast
qed

text \<open>Every match is \<open>63\<close> and eight hex digits, and stands in the bytecode.\<close>

lemma matches_occur:
  "m \<in> set (matches b) \<Longrightarrow>
     \<exists>h pre post. m = ''63'' @ h \<and> length h = 8 \<and> list_all isHexDigit h \<and> b = pre @ m @ post"
proof (induction b arbitrary: m rule: matches.induct)
  case 1
  then show ?case by simp
next
  case (2 c cs)
  show ?case
  proof (cases "push4At (c # cs)")
    case True
    with "2.prems" consider "m = take 10 (c # cs)" | "m \<in> set (matches (drop 9 cs))"
      by auto
    then show ?thesis
    proof cases
      case 1
      from push4At_take [OF True] obtain h where
        h: "take 10 (c # cs) = ''63'' @ h" "length h = 8" "list_all isHexDigit h" by blast
      have "c # cs = [] @ take 10 (c # cs) @ drop 10 (c # cs)" by simp
      with 1 h show ?thesis by metis
    next
      case 2
      from "2.IH"(1) [OF True 2] obtain h pre post where
        h: "m = ''63'' @ h" "length h = 8" "list_all isHexDigit h"
        and d: "drop 9 cs = pre @ m @ post" by blast
      have "c # cs = take 10 (c # cs) @ drop 9 cs" by simp
      with d have "c # cs = (take 10 (c # cs) @ pre) @ m @ post" by simp
      with h show ?thesis by blast
    qed
  next
    case False
    with "2.prems" have "m \<in> set (matches cs)" by simp
    from "2.IH"(2) [OF False this] obtain h pre post where
      h: "m = ''63'' @ h" "length h = 8" "list_all isHexDigit h"
      and d: "cs = pre @ m @ post" by blast
    from d have "c # cs = (c # pre) @ m @ post" by simp
    with h show ?thesis by blast
  qed
qed

text \<open>The pattern, spelled out.\<close>

lemma push4At_iff:
  "push4At s \<longleftrightarrow> (\<exists>h rest. s = ''63'' @ h @ rest \<and> length h = 8 \<and> list_all isHexDigit h)"
proof
  assume "push4At s"
  then obtain rest where s: "s = CHR ''6'' # CHR ''3'' # rest"
    and len: "length (take 8 rest) = 8" and hex: "list_all isHexDigit (take 8 rest)"
    by (auto simp: push4At_def split: list.splits)
  have "s = ''63'' @ take 8 rest @ drop 8 rest" by (simp add: s)
  with len hex show "\<exists>h rest. s = ''63'' @ h @ rest \<and> length h = 8 \<and> list_all isHexDigit h"
    by blast
next
  assume "\<exists>h rest. s = ''63'' @ h @ rest \<and> length h = 8 \<and> list_all isHexDigit h"
  then show "push4At s" by (auto simp: push4At_def)
qed

text \<open>The matches are the ten characters at the offsets of the search.\<close>

lemma matches_offsets:
  "matches b = map (\<lambda>i. take 10 (drop i b)) (matchOffsets b)"
proof (induction b rule: matchOffsets.induct)
  case 1
  then show ?case by simp
next
  case (2 c cs)
  show ?case
  proof (cases "push4At (c # cs)")
    case True
    have "\<And>j. drop (j + 10) (c # cs) = drop j (drop 9 cs)"
    proof -
      fix j :: nat
      have "j + 10 = Suc (j + 9)" by simp
      then have "drop (j + 10) (c # cs) = drop (j + 9) cs" by (simp only: drop_Suc_Cons)
      then show "drop (j + 10) (c # cs) = drop j (drop 9 cs)" by (simp add: add.commute)
    qed
    with True "2.IH"(1) show ?thesis by (simp add: comp_def)
  next
    case False
    with "2.IH"(2) show ?thesis by (simp add: comp_def)
  qed
qed

lemma matchOffsets_sorted: "sorted_wrt (<) (matchOffsets b)"
proof (induction b rule: matchOffsets.induct)
  case 1
  then show ?case by simp
next
  case (2 c cs)
  then show ?case
    by (cases "push4At (c # cs)") (auto simp: sorted_wrt_map)
qed

text \<open>
  The search finds a push exactly when the push does not start inside a match found
  before it.
\<close>

lemma matchOffsets_iff:
  "i \<in> set (matchOffsets b) \<longleftrightarrow>
     push4At (drop i b) \<and> (\<forall>j \<in> set (matchOffsets b). \<not> (j < i \<and> i < j + 10))"
proof (induction b arbitrary: i rule: matchOffsets.induct)
  case 1
  then show ?case by (simp add: push4At_def)
next
  case (2 c cs)
  show ?case
  proof (cases "push4At (c # cs)")
    case True
    note IH = "2.IH"(1) [OF True]
    have offs: "matchOffsets (c # cs) = 0 # map (\<lambda>j. j + 10) (matchOffsets (drop 9 cs))"
      using True by simp
    consider "i = 0" | "0 < i" "i < 10" | "10 \<le> i" by linarith
    then show ?thesis
    proof cases
      case 1
      with True show ?thesis unfolding offs by simp
    next
      case 2
      then show ?thesis unfolding offs by auto
    next
      case 3
      then obtain k where k: "i = k + 10" by (metis le_add_diff_inverse2)
      have "k + 10 = Suc (k + 9)" by simp
      then have "drop (k + 10) (c # cs) = drop (k + 9) cs" by (simp only: drop_Suc_Cons)
      then have d: "drop i (c # cs) = drop k (drop 9 cs)" by (simp add: k add.commute)
      have "i \<in> set (matchOffsets (c # cs)) \<longleftrightarrow> k \<in> set (matchOffsets (drop 9 cs))"
        unfolding offs by (auto simp: k)
      also have "\<dots> \<longleftrightarrow> push4At (drop k (drop 9 cs))
                    \<and> (\<forall>j \<in> set (matchOffsets (drop 9 cs)). \<not> (j < k \<and> k < j + 10))"
        by (rule IH)
      also have "\<dots> \<longleftrightarrow> push4At (drop i (c # cs))
                    \<and> (\<forall>j \<in> set (matchOffsets (c # cs)). \<not> (j < i \<and> i < j + 10))"
        unfolding d offs by (auto simp: k)
      finally show ?thesis .
    qed
  next
    case False
    note IH = "2.IH"(2) [OF False]
    have offs: "matchOffsets (c # cs) = map Suc (matchOffsets cs)"
      using False by simp
    show ?thesis
    proof (cases i)
      case 0
      with False show ?thesis unfolding offs by auto
    next
      case (Suc k)
      have "i \<in> set (matchOffsets (c # cs)) \<longleftrightarrow> k \<in> set (matchOffsets cs)"
        unfolding offs by (auto simp: Suc)
      also have "\<dots> \<longleftrightarrow> push4At (drop k cs)
                    \<and> (\<forall>j \<in> set (matchOffsets cs). \<not> (j < k \<and> k < j + 10))"
        by (rule IH)
      also have "\<dots> \<longleftrightarrow> push4At (drop i (c # cs))
                    \<and> (\<forall>j \<in> set (matchOffsets (c # cs)). \<not> (j < i \<and> i < j + 10))"
        unfolding offs by (auto simp: Suc)
      finally show ?thesis .
    qed
  qed
qed

text \<open>The selector of the match at an offset is the eight characters after its \<open>63\<close>.\<close>

lemma uniqueSelectors_offsets:
  "uniqueSelectors b =
     newSet (map (\<lambda>i. ''0x'' @ take 8 (drop (i + 2) b)) (matchOffsets b))"
proof -
  have "\<And>i. drop 2 (take 10 (drop i b)) = take 8 (drop (i + 2) b)"
    by (simp add: drop_take add.commute)
  then show ?thesis
    by (simp add: uniqueSelectors_def matches_offsets comp_def)
qed

lemma distinct_filter_once:
  "x \<in> set xs \<Longrightarrow> distinct xs \<Longrightarrow> length (filter (\<lambda>s. s = x) xs) = 1"
proof (induction xs)
  case Nil
  then show ?case by simp
next
  case (Cons a xs)
  show ?case
  proof (cases "a = x")
    case True
    with Cons.prems have "x \<notin> set xs" by simp
    then have "filter (\<lambda>s. s = x) xs = []" by (auto simp: filter_empty_conv)
    with True show ?thesis by simp
  next
    case False
    with Cons show ?thesis by simp
  qed
qed

lemma uniqueSelectors_nonempty:
  "uniqueSelectors bytecode \<noteq> [] \<Longrightarrow> bytecode \<noteq> [] \<and> bytecode \<noteq> ''0x''"
  by (auto simp: uniqueSelectors_def newSet_def push4At_def)

lemma exampleBytecode_selectors: "uniqueSelectors exampleBytecode = exampleSelectors"
  by (simp add: uniqueSelectors_def exampleBytecode_def exampleSelectors_def newSet_def
        push4At_def isHexDigit_def)

text \<open>
  C2, as the code has it. For every bytecode string the extracted selectors are pairwise
  different strings; each is \<open>0x\<close> followed by eight hex digits that follow a \<open>63\<close>
  somewhere in the bytecode, in the letter case they have there. The search goes from
  left to right over increasing offsets and finds a push (a \<open>63\<close> followed by eight hex
  digits) exactly when the push does not start inside a match found before it; the
  selectors are those of the matches found, each once, in the order of first
  occurrence. In particular every push that no push overlaps from the nine offsets
  before it yields its selector exactly once, wherever it stands and however often the
  same push occurs again.
\<close>

theorem selectors_distinct_verbatim:
  "distinct (uniqueSelectors bytecode)
   \<and> (\<forall>s \<in> set (uniqueSelectors bytecode).
        \<exists>h pre post. s = ''0x'' @ h \<and> length h = 8 \<and> list_all isHexDigit h
                     \<and> bytecode = pre @ ''63'' @ h @ post)
   \<and> (\<exists>offs. sorted_wrt (<) offs
         \<and> (\<forall>i. i \<in> set offs \<longleftrightarrow>
                  push4At (drop i bytecode) \<and> (\<forall>j \<in> set offs. \<not> (j < i \<and> i < j + 10)))
         \<and> uniqueSelectors bytecode =
             newSet (map (\<lambda>i. ''0x'' @ take 8 (drop (i + 2) bytecode)) offs)
         \<and> set (uniqueSelectors bytecode) =
             (\<lambda>i. ''0x'' @ take 8 (drop (i + 2) bytecode)) ` set offs
         \<and> (\<forall>i \<in> set offs.
              length (filter (\<lambda>s. s = ''0x'' @ take 8 (drop (i + 2) bytecode))
                        (uniqueSelectors bytecode)) = 1))
   \<and> (\<forall>pre h rest.
        length h = 8 \<and> list_all isHexDigit h \<and> bytecode = pre @ ''63'' @ h @ rest
        \<and> (\<forall>j<length pre. length pre < j + 10 \<longrightarrow> \<not> push4At (drop j bytecode))
        \<longrightarrow> length (filter (\<lambda>s. s = ''0x'' @ h) (uniqueSelectors bytecode)) = 1)"
proof -
  let ?sel = "\<lambda>i. ''0x'' @ take 8 (drop (i + 2) bytecode)"
  let ?offs = "matchOffsets bytecode"
  have d: "distinct (uniqueSelectors bytecode)"
    by (simp add: uniqueSelectors_def distinct_newSet)
  have st: "set (uniqueSelectors bytecode) = ?sel ` set ?offs"
    by (simp add: uniqueSelectors_offsets set_newSet)
  have once: "\<forall>i \<in> set ?offs. length (filter (\<lambda>s. s = ?sel i) (uniqueSelectors bytecode)) = 1"
  proof
    fix i assume "i \<in> set ?offs"
    then have "?sel i \<in> set (uniqueSelectors bytecode)" unfolding st by (rule imageI)
    then show "length (filter (\<lambda>s. s = ?sel i) (uniqueSelectors bytecode)) = 1"
      using d by (rule distinct_filter_once)
  qed
  have sound: "\<forall>s \<in> set (uniqueSelectors bytecode).
        \<exists>h pre post. s = ''0x'' @ h \<and> length h = 8 \<and> list_all isHexDigit h
                     \<and> bytecode = pre @ ''63'' @ h @ post"
  proof
    fix s assume "s \<in> set (uniqueSelectors bytecode)"
    then obtain m where m: "m \<in> set (matches bytecode)" and s: "s = ''0x'' @ drop 2 m"
      by (auto simp: uniqueSelectors_def set_newSet)
    from matches_occur [OF m] obtain h pre post where
      "m = ''63'' @ h" "length h = 8" "list_all isHexDigit h" "bytecode = pre @ m @ post"
      by blast
    with s show "\<exists>h pre post. s = ''0x'' @ h \<and> length h = 8 \<and> list_all isHexDigit h
                     \<and> bytecode = pre @ ''63'' @ h @ post"
      by auto
  qed
  have ex: "\<exists>offs. sorted_wrt (<) offs
         \<and> (\<forall>i. i \<in> set offs \<longleftrightarrow>
                  push4At (drop i bytecode) \<and> (\<forall>j \<in> set offs. \<not> (j < i \<and> i < j + 10)))
         \<and> uniqueSelectors bytecode = newSet (map ?sel offs)
         \<and> set (uniqueSelectors bytecode) = ?sel ` set offs
         \<and> (\<forall>i \<in> set offs.
              length (filter (\<lambda>s. s = ?sel i) (uniqueSelectors bytecode)) = 1)"
  proof (intro exI [of _ ?offs] conjI allI)
    show "sorted_wrt (<) ?offs" by (rule matchOffsets_sorted)
    show "uniqueSelectors bytecode = newSet (map ?sel ?offs)" by (rule uniqueSelectors_offsets)
    show "set (uniqueSelectors bytecode) = ?sel ` set ?offs" by (rule st)
    show "\<forall>i \<in> set ?offs.
            length (filter (\<lambda>s. s = ?sel i) (uniqueSelectors bytecode)) = 1" by (rule once)
    fix i
    show "i \<in> set ?offs \<longleftrightarrow>
            push4At (drop i bytecode) \<and> (\<forall>j \<in> set ?offs. \<not> (j < i \<and> i < j + 10))"
      by (rule matchOffsets_iff)
  qed
  have free: "\<forall>pre h rest.
        length h = 8 \<and> list_all isHexDigit h \<and> bytecode = pre @ ''63'' @ h @ rest
        \<and> (\<forall>j<length pre. length pre < j + 10 \<longrightarrow> \<not> push4At (drop j bytecode))
        \<longrightarrow> length (filter (\<lambda>s. s = ''0x'' @ h) (uniqueSelectors bytecode)) = 1"
  proof (intro allI impI)
    fix pre h rest
    assume a: "length h = 8 \<and> list_all isHexDigit h \<and> bytecode = pre @ ''63'' @ h @ rest
        \<and> (\<forall>j<length pre. length pre < j + 10 \<longrightarrow> \<not> push4At (drop j bytecode))"
    from a have len: "length h = 8" and hex: "list_all isHexDigit h"
      and b: "bytecode = pre @ ''63'' @ h @ rest"
      and no: "\<forall>j<length pre. length pre < j + 10 \<longrightarrow> \<not> push4At (drop j bytecode)"
      by blast+
    have dr: "drop (length pre) bytecode = ''63'' @ h @ rest"
      by (simp add: b)
    have p: "push4At (drop (length pre) bytecode)"
      unfolding dr push4At_iff using len hex by blast
    have free_of: "\<forall>j \<in> set ?offs. \<not> (j < length pre \<and> length pre < j + 10)"
    proof
      fix j assume "j \<in> set ?offs"
      then have pj: "push4At (drop j bytecode)"
        by (rule matchOffsets_iff [THEN iffD1, THEN conjunct1])
      show "\<not> (j < length pre \<and> length pre < j + 10)"
      proof
        assume "j < length pre \<and> length pre < j + 10"
        with no have "\<not> push4At (drop j bytecode)" by blast
        with pj show False by contradiction
      qed
    qed
    from p free_of have mem: "length pre \<in> set ?offs"
      by (intro matchOffsets_iff [THEN iffD2] conjI)
    have "drop (length pre + 2) bytecode = h @ rest"
      by (simp add: b)
    then have e: "?sel (length pre) = ''0x'' @ h" using len by simp
    from once mem
    have "length (filter (\<lambda>s. s = ?sel (length pre)) (uniqueSelectors bytecode)) = 1"
      by (rule bspec)
    then show "length (filter (\<lambda>s. s = ''0x'' @ h) (uniqueSelectors bytecode)) = 1"
      unfolding e .
  qed
  from d sound ex free show ?thesis by (intro conjI)
qed

text \<open>
  The statement at a bytecode with the push of \<open>aabbccdd\<close> at two offsets, the first of
  them after the three bytes \<open>60 80 14\<close>: the selector is found once, and it is the only
  one.
\<close>

theorem selectors_distinct_verbatim_witness:
  "distinct (uniqueSelectors ''0x60801463aabbccdd0063aabbccdd'')
   \<and> length (filter (\<lambda>s. s = ''0xaabbccdd'')
        (uniqueSelectors ''0x60801463aabbccdd0063aabbccdd'')) = 1
   \<and> uniqueSelectors ''0x60801463aabbccdd0063aabbccdd'' = [''0xaabbccdd'']"
proof -
  let ?b = "''0x60801463aabbccdd0063aabbccdd''"
  note t = selectors_distinct_verbatim [of ?b]
  have d: "distinct (uniqueSelectors ?b)"
    using t by (rule conjunct1)
  have no: "\<forall>j<length ''0x608014''. length ''0x608014'' < j + 10 \<longrightarrow> \<not> push4At (drop j ?b)"
  proof (intro allI impI)
    fix j :: nat assume "j < length ''0x608014''"
    then have "j = 0 \<or> j = 1 \<or> j = 2 \<or> j = 3 \<or> j = 4 \<or> j = 5 \<or> j = 6 \<or> j = 7"
      by auto
    then show "\<not> push4At (drop j ?b)"
      by (auto simp: push4At_def)
  qed
  have h: "length ''aabbccdd'' = 8 \<and> list_all isHexDigit ''aabbccdd''
           \<and> ?b = ''0x608014'' @ ''63'' @ ''aabbccdd'' @ ''0063aabbccdd''
           \<and> (\<forall>j<length ''0x608014''. length ''0x608014'' < j + 10 \<longrightarrow> \<not> push4At (drop j ?b))"
    using no by (simp add: isHexDigit_def)
  have once: "length (filter (\<lambda>s. s = ''0x'' @ ''aabbccdd'') (uniqueSelectors ?b)) = 1"
    using t [THEN conjunct2, THEN conjunct2, THEN conjunct2, rule_format, OF h] .
  have v: "uniqueSelectors ?b = [''0xaabbccdd'']"
    by (simp add: uniqueSelectors_def newSet_def push4At_def isHexDigit_def)
  from d once v show ?thesis by simp
qed

text \<open>
  C2 as stated fails. The push of \<open>AABBCCDD\<close> at two offsets yields the selector in
  uppercase, not \<open>0xaabbccdd\<close>; the same four bytes written in both cases yield two
  selectors; and where one push of \<open>aabbccdd\<close> directly follows a byte \<open>63\<close>, the scan
  matches that byte with the digits after it and does not yield \<open>0xaabbccdd\<close> at all.
\<close>

theorem uppercase_selector_kept:
  "uniqueSelectors ''0x63AABBCCDD0063AABBCCDD'' = [''0xAABBCCDD'']
   \<and> ''0xaabbccdd'' \<notin> set (uniqueSelectors ''0x63AABBCCDD0063AABBCCDD'')
   \<and> uniqueSelectors ''0x63aabbccdd0063AABBCCDD'' = [''0xaabbccdd'', ''0xAABBCCDD'']
   \<and> uniqueSelectors ''0x6363aabbccdd6363aabbccdd'' = [''0x63aabbcc'']"
  by (simp add: uniqueSelectors_def newSet_def push4At_def isHexDigit_def)

subsection \<open>Signature lookup\<close>

lemma sort_key_head:
  assumes "sort_key f xs = y # ys"
  shows "y \<in> set xs \<and> (\<forall>x \<in> set xs. f y \<le> f x)
         \<and> (\<exists>rest. filter (\<lambda>x. f x = f y) xs = y # rest)"
proof -
  have "set (sort_key f xs) = set xs" by simp
  with assms have s: "set xs = insert y (set ys)" by auto
  have "sorted (map f (sort_key f xs))" by (rule sorted_sort_key)
  with assms have le: "\<forall>x \<in> set ys. f y \<le> f x" by simp
  have "filter (\<lambda>x. f x = f y) (sort_key f xs) = filter (\<lambda>x. f x = f y) xs"
    by (rule sort_key_stable)
  with assms have "filter (\<lambda>x. f x = f y) xs = y # filter (\<lambda>x. f x = f y) ys" by simp
  with s le show ?thesis by auto
qed

text \<open>An identifier below \<open>2^53\<close> in magnitude is read exactly.\<close>

lemma toNumber_safe: "\<bar>n\<bar> < 2 ^ 53 \<Longrightarrow> toNumber n = n"
  by (simp add: toNumber_def Let_def nat_less_iff)

text \<open>
  Beyond, identifiers are rounded: \<open>2^53 + 1\<close> is read as \<open>2^53\<close>. A candidate listed
  first is then chosen over a later one whose identifier is smaller by one.
\<close>

lemma bitLength_2_53: "bitLength 9007199254740992 = 54" "bitLength 9007199254740993 = 54"
  by (simp_all add: bitLength.simps)

lemma toNumber_2_53:
  "toNumber 9007199254740992 = 9007199254740992"
  "toNumber 9007199254740993 = 9007199254740992"
  by (simp_all add: toNumber_def Let_def bitLength_2_53)

lemma bestSig_rounded_identifiers:
  "bestSig [candidate 9007199254740993 ''larger()'', candidate 9007199254740992 ''smaller()'']
     = Inr ''larger()''"
  by (simp add: bestSig_def candidate_def toNumber_2_53)

text \<open>
  C6. When the registry answers the lookup of a selector with one or more candidates,
  the text that \<open>fetchSignature\<close> works on is that of a candidate whose identifier, as
  the number the handler reads, is the smallest of all, and the first listed of the
  candidates with that number. When all identifiers are below \<open>2^53\<close> in magnitude,
  where numbers are exact, it is the candidate with the smallest identifier. The
  descriptor is built from the chosen text when it has the form of a signature, and is
  the placeholder otherwise.
\<close>

theorem lowest_id_chosen:
  assumes "registry env tr (HttpGet (sigUrl sel)) = FetchResponse True statusText (Body sigData)"
      and "results sigData \<noteq> []"
  shows "\<exists>c \<in> set (results sigData).
           (\<forall>c' \<in> set (results sigData). toNumber (sig_id c) \<le> toNumber (sig_id c'))
           \<and> (\<exists>rest. filter (\<lambda>c'. toNumber (sig_id c') = toNumber (sig_id c)) (results sigData)
                        = c # rest)
           \<and> ((\<forall>c' \<in> set (results sigData). \<bar>sig_id c'\<bar> < 2 ^ 53)
                \<longrightarrow> (\<forall>c' \<in> set (results sigData). sig_id c \<le> sig_id c'))
           \<and> bestSig (results sigData) = Inr (text_signature c)
           \<and> fetchSignature env tr sel =
               Some (case nameMatch (text_signature c) of
                       Some (nm, group2) \<Rightarrow> descriptor sel nm group2
                     | None \<Rightarrow> placeholder sel)"
proof -
  let ?key = "\<lambda>r. toNumber (sig_id r)"
  have "sort_key ?key (results sigData) \<noteq> []"
    using assms(2) by (metis length_sort list.size(3) length_0_conv)
  then obtain c cs where sk: "sort_key ?key (results sigData) = c # cs"
    by (cases "sort_key ?key (results sigData)") auto
  from sort_key_head [OF sk] have c: "c \<in> set (results sigData)"
    and least: "\<forall>c' \<in> set (results sigData). ?key c \<le> ?key c'"
    and first: "\<exists>rest. filter (\<lambda>c'. ?key c' = ?key c) (results sigData) = c # rest"
    by blast+
  have exact: "(\<forall>c' \<in> set (results sigData). \<bar>sig_id c'\<bar> < 2 ^ 53)
                \<longrightarrow> (\<forall>c' \<in> set (results sigData). sig_id c \<le> sig_id c')"
  proof (intro impI ballI)
    fix c'
    assume safe: "\<forall>c' \<in> set (results sigData). \<bar>sig_id c'\<bar> < 2 ^ 53"
      and c': "c' \<in> set (results sigData)"
    from least c' have "?key c \<le> ?key c'" by blast
    moreover from safe c have "?key c = sig_id c" by (simp add: toNumber_safe)
    moreover from safe c' have "?key c' = sig_id c'" by (simp add: toNumber_safe)
    ultimately show "sig_id c \<le> sig_id c'" by simp
  qed
  have b: "bestSig (results sigData) = Inr (text_signature c)"
    by (simp add: bestSig_def sk)
  have f: "fetchSignature env tr sel =
               Some (case nameMatch (text_signature c) of
                       Some (nm, group2) \<Rightarrow> descriptor sel nm group2
                     | None \<Rightarrow> placeholder sel)"
    using assms b by (simp add: fetchSignature_def fetchSignature_try_def split: option.splits)
  from c least first exact b f show ?thesis by blast
qed

text \<open>
  The statement at a registry that lists the candidate 5 before the candidate 2: the
  text of the candidate 2 is chosen.
\<close>

theorem lowest_id_chosen_witness:
  "bestSig [candidate 5 ''many_msg_babbage(bytes1)'', candidate 2 ''transfer(address,uint256)'']
     = Inr ''transfer(address,uint256)''
   \<and> fetchSignature collidingEnv [] ''0xa9059cbb''
     = Some (descriptor ''0xa9059cbb'' ''transfer'' ''address,uint256'')"
proof -
  let ?cs = "[candidate 5 ''many_msg_babbage(bytes1)'', candidate 2 ''transfer(address,uint256)'']"
  let ?d = "\<lparr>sig_count = int (length ?cs), next_page = None, previous_page = None,
             results = ?cs\<rparr>"
  have a: "registry collidingEnv [] (HttpGet (sigUrl ''0xa9059cbb''))
             = FetchResponse True ''OK'' (Body ?d)"
    by (simp add: collidingEnv_def exampleEnv_def collidingRegistry_def candidates_def)
  have b: "results ?d \<noteq> []" by simp
  have safe: "\<forall>c' \<in> set (results ?d). \<bar>sig_id c'\<bar> < 2 ^ 53"
    by (simp add: candidate_def)
  have m: "nameMatch ''transfer(address,uint256)'' = Some (''transfer'', ''address,uint256'')"
    by (simp add: nameMatch_def isNameChar_def isLineTerminator_def)
  from lowest_id_chosen [OF a b] safe obtain c where
    c: "c \<in> set ?cs" "\<forall>c' \<in> set ?cs. sig_id c \<le> sig_id c'"
       "bestSig ?cs = Inr (text_signature c)"
       "fetchSignature collidingEnv [] ''0xa9059cbb'' =
          Some (case nameMatch (text_signature c) of
                  Some (nm, group2) \<Rightarrow> descriptor ''0xa9059cbb'' nm group2
                | None \<Rightarrow> placeholder ''0xa9059cbb'')"
    by auto
  from c(1,2) have "c = candidate 2 ''transfer(address,uint256)''"
    by (auto simp: candidate_def)
  with c(3,4) m show ?thesis by (simp add: candidate_def)
qed

subsection \<open>The fan-out over the selectors\<close>

lemma promiseAll_results:
  "fst (promiseAll env tr sels) =
     map (\<lambda>i. fetchSignature env (issuedBefore tr sels i) (sels ! i)) [0..<length sels]"
proof (induction sels arbitrary: tr)
  case Nil
  then show ?case by simp
next
  case (Cons sel sels)
  have "fst (promiseAll env tr (sel # sels)) =
          fetchSignature env tr sel # fst (promiseAll env (tr @ [HttpGet (sigUrl sel)]) sels)"
    by (simp add: split_beta)
  also have "fst (promiseAll env (tr @ [HttpGet (sigUrl sel)]) sels) =
      map (\<lambda>i. fetchSignature env (issuedBefore (tr @ [HttpGet (sigUrl sel)]) sels i) (sels ! i))
        [0..<length sels]"
    by (rule Cons.IH)
  also have "\<dots> = map (\<lambda>i. fetchSignature env (issuedBefore tr (sel # sels) (Suc i))
                            ((sel # sels) ! Suc i)) [0..<length sels]"
    by (simp add: issuedBefore_def)
  finally show ?case
    by (simp add: map_upt_Suc issuedBefore_def del: upt_Suc)
qed

lemma promiseAll_requests:
  "snd (promiseAll env tr sels) = tr @ map (\<lambda>s. HttpGet (sigUrl s)) sels"
  by (induction sels arbitrary: tr) (simp_all add: split_beta)

text \<open>\<open>fetchSignature\<close> returns \<open>null\<close> exactly when the registry's response is not \<open>ok\<close>.\<close>

lemma fetchSignature_None_iff:
  "fetchSignature env tr sel = None \<longleftrightarrow> refused env tr sel"
  by (auto simp: fetchSignature_def fetchSignature_try_def refused_def
        split: fetch_result.splits json_body.splits sum.splits option.splits if_splits)

lemma placeholder_fields:
  "selector (placeholder sel) = sel" "fn_type (placeholder sel) = ''function''"
  "inputs (placeholder sel) = []" "fn_name (placeholder sel) = ''unknown_'' @ drop 2 sel"
  by (simp_all add: placeholder_def)

lemma descriptor_fields:
  "selector (descriptor sel nm group2) = sel" "fn_type (descriptor sel nm group2) = ''function''"
  "fn_name (descriptor sel nm group2) = nm"
  by (simp_all add: descriptor_def Let_def)

lemma fetchSignature_shape:
  "fetchSignature env tr sel = Some d \<Longrightarrow>
     d = placeholder sel \<or> (\<exists>nm group2. d = descriptor sel nm group2)"
  by (fastforce simp: fetchSignature_def fetchSignature_try_def
        split: fetch_result.splits json_body.splits sum.splits option.splits if_splits)

lemma fetchSignature_Some:
  assumes "fetchSignature env tr sel = Some d"
  shows "selector d = sel \<and> fn_type d = ''function''
     \<and> (d = placeholder sel \<or> (\<exists>nm group2. d = descriptor sel nm group2))"
  using fetchSignature_shape [OF assms] placeholder_fields descriptor_fields by metis

lemma recoveredAbi_selectors:
  "map selector (recoveredAbi (fst (promiseAll env tr sels))) =
     map (\<lambda>i. sels ! i)
       (filter (\<lambda>i. \<not> refused env (issuedBefore tr sels i) (sels ! i)) [0..<length sels])"
proof -
  let ?f = "\<lambda>i. fetchSignature env (issuedBefore tr sels i) (sels ! i)"
  have "recoveredAbi (fst (promiseAll env tr sels)) =
          map (\<lambda>i. the (?f i)) (filter (\<lambda>i. ?f i \<noteq> None) [0..<length sels])"
    by (simp add: recoveredAbi_def promiseAll_results filter_map comp_def)
  moreover have "\<And>i. ?f i \<noteq> None \<Longrightarrow> selector (the (?f i)) = sels ! i"
    using fetchSignature_Some by fastforce
  ultimately show ?thesis
    by (simp add: fetchSignature_None_iff comp_def cong: map_cong)
qed

lemmas example_defs =
  exampleEnv_def exampleParse_def unreachable_def abiAnswer_def sourceAnswer_def sourceOf_def

lemma transfer_match:
  "nameMatch ''transfer(address,uint256)'' = Some (''transfer'', ''address,uint256'')"
  by (simp add: nameMatch_def isNameChar_def isLineTerminator_def)

lemma lossy_results:
  "fst (promiseAll lossyEnv tr exampleSelectors) =
     [Some (descriptor ''0x00000001'' ''transfer'' ''address,uint256''),
      Some (descriptor ''0x00000002'' ''transfer'' ''address,uint256''),
      Some (placeholder ''0x00000003''),
      Some (descriptor ''0x00000004'' ''transfer'' ''address,uint256''),
      Some (descriptor ''0x00000005'' ''transfer'' ''address,uint256''),
      Some (placeholder ''0x00000006''),
      Some (descriptor ''0x00000007'' ''transfer'' ''address,uint256''),
      Some (descriptor ''0x00000008'' ''transfer'' ''address,uint256''),
      Some (placeholder ''0x00000009''),
      Some (descriptor ''0x0000000a'' ''transfer'' ''address,uint256'')]"
  by (simp add: exampleSelectors_def split_beta fetchSignature_def fetchSignature_try_def
        lossyEnv_def lossyRegistry_def example_defs candidates_def candidate_def sigUrl_def
        bestSig_def transfer_match)

lemma refusing_results:
  "fst (promiseAll refusingEnv tr exampleSelectors) =
     [Some (descriptor ''0x00000001'' ''transfer'' ''address,uint256''),
      Some (descriptor ''0x00000002'' ''transfer'' ''address,uint256''),
      None,
      Some (descriptor ''0x00000004'' ''transfer'' ''address,uint256''),
      Some (descriptor ''0x00000005'' ''transfer'' ''address,uint256''),
      None,
      Some (descriptor ''0x00000007'' ''transfer'' ''address,uint256''),
      Some (descriptor ''0x00000008'' ''transfer'' ''address,uint256''),
      None,
      Some (descriptor ''0x0000000a'' ''transfer'' ''address,uint256'')]"
  by (simp add: exampleSelectors_def split_beta fetchSignature_def fetchSignature_try_def
        refusingEnv_def refusingRegistry_def example_defs candidates_def candidate_def sigUrl_def
        bestSig_def transfer_match)

lemma lossy_never_refused: "\<not> refused lossyEnv tr sel"
  by (simp add: refused_def lossyEnv_def lossyRegistry_def exampleEnv_def candidates_def)

text \<open>
  The recovery tier of the two example registries: the explorer is unreachable, the node
  returns the example bytecode.
\<close>

lemma recovery_response:
  assumes "explorer env = unreachable" and "rpc env = codeRpc"
  shows "fst (getContract env exampleQuery) =
           recoveredResponse exampleAddress
             (recoveredAbi (fst (promiseAll env
                [HttpGet (v2Url env mainnet exampleAddress),
                 JsonRpc (rpcUrl env mainnet) ''eth_getCode'' [exampleAddress, ''latest'']]
                exampleSelectors)))"
proof -
  have t1: "tier1 env exampleAddress mainnet
              = (Inl TypeError, [HttpGet (v2Url env mainnet exampleAddress)])"
    by (simp add: tier1_def assms unreachable_def)
  have ne: "exampleSelectors \<noteq> []" by (simp add: exampleSelectors_def)
  have bc: "exampleBytecode \<noteq> [] \<and> exampleBytecode \<noteq> ''0x''"
    by (simp add: exampleBytecode_def)
  have t2: "fst (tier2 env exampleAddress mainnet [HttpGet (v2Url env mainnet exampleAddress)])
              = Inr (recoveredResponse exampleAddress
             (recoveredAbi (fst (promiseAll env
                [HttpGet (v2Url env mainnet exampleAddress),
                 JsonRpc (rpcUrl env mainnet) ''eth_getCode'' [exampleAddress, ''latest'']]
                exampleSelectors))))"
    using ne bc
    by (simp add: tier2_def assms codeRpc_def bytecodeOf_def exampleBytecode_selectors
          split_beta Let_def)
  show ?thesis
    using t2 by (auto simp: getContract_def exampleQuery_parse t1 split: prod.splits sum.splits)
qed

text \<open>
  C1, as the code has it. The fan-out has one result for every input selector, in the
  order of the selectors. The result of a selector is \<open>null\<close> exactly when the registry
  answered its lookup with a response that is not \<open>ok\<close>, and it is then left out of the
  recovered ABI; in every other case (a network error, a body that is not JSON, no
  candidate, a text that is not a signature, a signature) it is one function descriptor
  with that selector, the placeholder or a resolved signature. So the recovered ABI has,
  in order, one descriptor for each selector that was not refused, and one for every
  selector when none was refused. Whenever the bytecode has a selector, the recovery tier
  answers with the success response that carries the recovered ABI, whatever the lookups
  gave.
\<close>

theorem one_descriptor_unless_refused:
  "length (fst (promiseAll env tr sels)) = length sels
   \<and> (\<forall>i<length sels.
        if refused env (issuedBefore tr sels i) (sels ! i)
        then fst (promiseAll env tr sels) ! i = None
        else \<exists>d. fst (promiseAll env tr sels) ! i = Some d
                 \<and> selector d = sels ! i \<and> fn_type d = ''function''
                 \<and> (d = placeholder (sels ! i) \<or> (\<exists>nm group2. d = descriptor (sels ! i) nm group2)))
   \<and> map selector (recoveredAbi (fst (promiseAll env tr sels))) =
       map (\<lambda>i. sels ! i)
         (filter (\<lambda>i. \<not> refused env (issuedBefore tr sels i) (sels ! i)) [0..<length sels])
   \<and> ((\<forall>i<length sels. \<not> refused env (issuedBefore tr sels i) (sels ! i))
        \<longrightarrow> map selector (recoveredAbi (fst (promiseAll env tr sels))) = sels)
   \<and> (\<forall>ok statusText codeData bytecode.
        rpc env tr (JsonRpc (rpcUrl env nw) ''eth_getCode'' [addr, ''latest''])
          = FetchResponse ok statusText (Body codeData)
        \<and> rpc_result codeData = Some bytecode \<and> uniqueSelectors bytecode \<noteq> []
        \<longrightarrow> fst (tier2 env addr nw tr) =
              Inr (recoveredResponse addr
                    (recoveredAbi (fst (promiseAll env
                       (tr @ [JsonRpc (rpcUrl env nw) ''eth_getCode'' [addr, ''latest'']])
                       (uniqueSelectors bytecode))))))"
proof (intro conjI allI impI)
  show "length (fst (promiseAll env tr sels)) = length sels"
    by (simp add: promiseAll_results)
next
  fix i assume i: "i < length sels"
  then have nth: "fst (promiseAll env tr sels) ! i
                    = fetchSignature env (issuedBefore tr sels i) (sels ! i)"
    by (simp add: promiseAll_results)
  show "if refused env (issuedBefore tr sels i) (sels ! i)
        then fst (promiseAll env tr sels) ! i = None
        else \<exists>d. fst (promiseAll env tr sels) ! i = Some d
                 \<and> selector d = sels ! i \<and> fn_type d = ''function''
                 \<and> (d = placeholder (sels ! i) \<or> (\<exists>nm group2. d = descriptor (sels ! i) nm group2))"
  proof (cases "refused env (issuedBefore tr sels i) (sels ! i)")
    case True
    then show ?thesis by (simp add: nth fetchSignature_None_iff)
  next
    case False
    then obtain d where d: "fetchSignature env (issuedBefore tr sels i) (sels ! i) = Some d"
      using fetchSignature_None_iff by fastforce
    from fetchSignature_Some [OF d] d False show ?thesis by (simp add: nth)
  qed
next
  show "map selector (recoveredAbi (fst (promiseAll env tr sels))) =
       map (\<lambda>i. sels ! i)
         (filter (\<lambda>i. \<not> refused env (issuedBefore tr sels i) (sels ! i)) [0..<length sels])"
    by (rule recoveredAbi_selectors)
next
  assume "\<forall>i<length sels. \<not> refused env (issuedBefore tr sels i) (sels ! i)"
  then have "filter (\<lambda>i. \<not> refused env (issuedBefore tr sels i) (sels ! i)) [0..<length sels]
               = [0..<length sels]"
    by (simp add: filter_id_conv)
  then show "map selector (recoveredAbi (fst (promiseAll env tr sels))) = sels"
    by (simp add: recoveredAbi_selectors map_nth)
next
  fix ok statusText codeData bytecode
  assume a: "rpc env tr (JsonRpc (rpcUrl env nw) ''eth_getCode'' [addr, ''latest''])
          = FetchResponse ok statusText (Body codeData)
        \<and> rpc_result codeData = Some bytecode \<and> uniqueSelectors bytecode \<noteq> []"
  with uniqueSelectors_nonempty [of bytecode] show "fst (tier2 env addr nw tr) =
              Inr (recoveredResponse addr
                    (recoveredAbi (fst (promiseAll env
                       (tr @ [JsonRpc (rpcUrl env nw) ''eth_getCode'' [addr, ''latest'']])
                       (uniqueSelectors bytecode)))))"
    by (simp add: tier2_def Let_def bytecodeOf_def split_beta)
qed

text \<open>
  The statement at ten different selectors of which three lookups fail, by a network
  error or with no candidate: ten descriptors in the order of the selectors, seven
  resolved and three placeholders, in a success response.
\<close>

theorem one_descriptor_unless_refused_witness:
  "length (fst (promiseAll lossyEnv [] exampleSelectors)) = 10
   \<and> map selector (recoveredAbi (fst (promiseAll lossyEnv [] exampleSelectors)))
       = exampleSelectors
   \<and> length (recoveredAbi (fst (promiseAll lossyEnv [] exampleSelectors))) = 10
   \<and> length (filter (\<lambda>d. d = descriptor (selector d) ''transfer'' ''address,uint256'')
        (recoveredAbi (fst (promiseAll lossyEnv [] exampleSelectors)))) = 7
   \<and> length (filter (\<lambda>d. d = placeholder (selector d))
        (recoveredAbi (fst (promiseAll lossyEnv [] exampleSelectors)))) = 3
   \<and> fst (tier2 lossyEnv exampleAddress mainnet []) =
       Inr (recoveredResponse exampleAddress
             (recoveredAbi (fst (promiseAll lossyEnv
                [JsonRpc (rpcUrl lossyEnv mainnet) ''eth_getCode'' [exampleAddress, ''latest'']]
                exampleSelectors))))
   \<and> http_status (fst (getContract lossyEnv exampleQuery)) = 200
   \<and> success (body (fst (getContract lossyEnv exampleQuery)))"
proof -
  note t = one_descriptor_unless_refused [of lossyEnv "[]" exampleSelectors mainnet exampleAddress]
  have len: "length (fst (promiseAll lossyEnv [] exampleSelectors)) = 10"
    using t [THEN conjunct1] by (simp add: exampleSelectors_def)
  have nr: "\<forall>i<length exampleSelectors.
              \<not> refused lossyEnv (issuedBefore [] exampleSelectors i) (exampleSelectors ! i)"
    by (simp add: lossy_never_refused)
  have sel: "map selector (recoveredAbi (fst (promiseAll lossyEnv [] exampleSelectors)))
               = exampleSelectors"
    using t [THEN conjunct2, THEN conjunct2, THEN conjunct2, THEN conjunct1] nr by blast
  have "length (map selector (recoveredAbi (fst (promiseAll lossyEnv [] exampleSelectors))))
          = 10"
    unfolding sel by (simp add: exampleSelectors_def)
  then have len': "length (recoveredAbi (fst (promiseAll lossyEnv [] exampleSelectors))) = 10"
    by simp
  have code: "rpc lossyEnv []
                (JsonRpc (rpcUrl lossyEnv mainnet) ''eth_getCode'' [exampleAddress, ''latest''])
               = FetchResponse True ''OK''
                   (Body \<lparr>jsonrpc = ''2.0'', rpc_id = 1, rpc_result = Some exampleBytecode\<rparr>)
              \<and> rpc_result \<lparr>jsonrpc = ''2.0'', rpc_id = 1, rpc_result = Some exampleBytecode\<rparr>
                  = Some exampleBytecode
              \<and> uniqueSelectors exampleBytecode \<noteq> []"
    by (simp add: lossyEnv_def exampleEnv_def codeRpc_def exampleBytecode_selectors
          exampleSelectors_def)
  have tier: "fst (tier2 lossyEnv exampleAddress mainnet []) =
       Inr (recoveredResponse exampleAddress
             (recoveredAbi (fst (promiseAll lossyEnv
                [JsonRpc (rpcUrl lossyEnv mainnet) ''eth_getCode'' [exampleAddress, ''latest'']]
                exampleSelectors))))"
    using t [THEN conjunct2, THEN conjunct2, THEN conjunct2, THEN conjunct2, rule_format,
             OF code]
    by (simp add: exampleBytecode_selectors)
  have counts:
    "length (filter (\<lambda>d. d = descriptor (selector d) ''transfer'' ''address,uint256'')
        (recoveredAbi (fst (promiseAll lossyEnv [] exampleSelectors)))) = 7
     \<and> length (filter (\<lambda>d. d = placeholder (selector d))
        (recoveredAbi (fst (promiseAll lossyEnv [] exampleSelectors)))) = 3"
    by (simp add: lossy_results recoveredAbi_def placeholder_fields descriptor_fields
          placeholder_def descriptor_def)
  have resp: "http_status (fst (getContract lossyEnv exampleQuery)) = 200
              \<and> success (body (fst (getContract lossyEnv exampleQuery)))"
    by (simp add: recovery_response lossyEnv_def exampleEnv_def recoveredResponse_def)
  from len sel len' counts tier resp show ?thesis by simp
qed

text \<open>
  C1 as stated fails. Of ten different selectors, three are answered by the registry
  with an error status: the recovered ABI has seven descriptors, not ten, and the
  handler answers with these seven.
\<close>

theorem refused_selectors_dropped:
  "length exampleSelectors = 10
   \<and> distinct exampleSelectors
   \<and> length (recoveredAbi (fst (promiseAll refusingEnv [] exampleSelectors))) = 7
   \<and> fst (getContract refusingEnv exampleQuery) =
       recoveredResponse exampleAddress
         [descriptor ''0x00000001'' ''transfer'' ''address,uint256'',
          descriptor ''0x00000002'' ''transfer'' ''address,uint256'',
          descriptor ''0x00000004'' ''transfer'' ''address,uint256'',
          descriptor ''0x00000005'' ''transfer'' ''address,uint256'',
          descriptor ''0x00000007'' ''transfer'' ''address,uint256'',
          descriptor ''0x00000008'' ''transfer'' ''address,uint256'',
          descriptor ''0x0000000a'' ''transfer'' ''address,uint256'']"
proof -
  have a: "length exampleSelectors = 10 \<and> distinct exampleSelectors"
    by (simp add: exampleSelectors_def)
  have b: "length (recoveredAbi (fst (promiseAll refusingEnv [] exampleSelectors))) = 7"
    by (simp add: refusing_results recoveredAbi_def)
  have c: "fst (getContract refusingEnv exampleQuery) =
       recoveredResponse exampleAddress
         [descriptor ''0x00000001'' ''transfer'' ''address,uint256'',
          descriptor ''0x00000002'' ''transfer'' ''address,uint256'',
          descriptor ''0x00000004'' ''transfer'' ''address,uint256'',
          descriptor ''0x00000005'' ''transfer'' ''address,uint256'',
          descriptor ''0x00000007'' ''transfer'' ''address,uint256'',
          descriptor ''0x00000008'' ''transfer'' ''address,uint256'',
          descriptor ''0x0000000a'' ''transfer'' ''address,uint256'']"
    by (simp add: recovery_response refusingEnv_def [unfolded exampleEnv_def]
          refusing_results [unfolded refusingEnv_def exampleEnv_def] recoveredAbi_def)
  from a b c show ?thesis by simp
qed

subsection \<open>The verified tier\<close>

text \<open>Tier 1 succeeds once the first request has given an ABI text that parses.\<close>

lemma tier1_verified:
  assumes "explorer env [] (HttpGet (v2Url env nw addr)) = FetchResponse True statusText (Body d)"
      and "status d = ''1''" and "result d = TextResult txt" and "txt \<noteq> []"
      and "JSON_parse env txt = Some parsed"
  shows "tier1 env addr nw =
           (case contractDetails env nw addr parsed [HttpGet (v2Url env nw addr)] of
              (contractName, abi1, caught, tr) \<Rightarrow> (Inr (verifiedResponse addr contractName abi1), tr))"
  using assms by (simp add: tier1_def Let_def truthy_def parse_result_def)

lemma getContract_verified:
  assumes "getContractSchema_parse q = Inr (addr, nw)"
      and "explorer env [] (HttpGet (v2Url env nw addr)) = FetchResponse True statusText (Body d)"
      and "status d = ''1''" and "result d = TextResult txt" and "txt \<noteq> []"
      and "JSON_parse env txt = Some parsed"
  shows "fst (getContract env q) =
           (case contractDetails env nw addr parsed [HttpGet (v2Url env nw addr)] of
              (contractName, abi1, caught, tr) \<Rightarrow> verifiedResponse addr contractName abi1)"
  using assms(1) tier1_verified [OF assms(2-6)]
  by (simp add: getContract_def split: prod.splits)

lemma getContract_verified_requests:
  assumes "getContractSchema_parse q = Inr (addr, nw)"
      and "explorer env [] (HttpGet (v2Url env nw addr)) = FetchResponse True statusText (Body d)"
      and "status d = ''1''" and "result d = TextResult txt" and "txt \<noteq> []"
      and "JSON_parse env txt = Some parsed"
  shows "snd (getContract env q) =
           (case contractDetails env nw addr parsed [HttpGet (v2Url env nw addr)] of
              (contractName, abi1, caught, tr) \<Rightarrow> tr)"
  using assms(1) tier1_verified [OF assms(2-6)]
  by (simp add: getContract_def split: prod.splits)

text \<open>And only then.\<close>

lemma tier1_fails_iff:
  "(\<exists>e tr. tier1 env addr nw = (Inl e, tr)) \<longleftrightarrow>
     \<not> (\<exists>statusText d txt parsed.
          explorer env [] (HttpGet (v2Url env nw addr)) = FetchResponse True statusText (Body d)
          \<and> status d = ''1'' \<and> result d = TextResult txt \<and> txt \<noteq> []
          \<and> JSON_parse env txt = Some parsed)"
  by (auto simp: tier1_def Let_def truthy_def parse_result_def
        split: fetch_result.splits json_body.splits etherscan_result.splits option.splits
               if_splits prod.splits)

text \<open>When the two lookups of the details block give their value.\<close>

lemma sourceRecord_Some_iff:
  "sourceRecord env tr req = Inr (Some r) \<longleftrightarrow>
     (\<exists>statusText sourceData rs.
        explorer env tr req = FetchResponse True statusText (Body sourceData)
        \<and> status sourceData = ''1'' \<and> result sourceData = SourceList (r # rs))"
  by (auto simp: sourceRecord_def
        split: fetch_result.splits json_body.splits etherscan_result.splits list.splits if_splits)

lemma implAbi_Some_iff:
  "implAbi env tr req = Inr (Some p) \<longleftrightarrow>
     (\<exists>statusText implData txt.
        explorer env tr req = FetchResponse True statusText (Body implData)
        \<and> status implData = ''1'' \<and> result implData = TextResult txt \<and> txt \<noteq> []
        \<and> JSON_parse env txt = Some p)"
  by (auto simp: implAbi_def truthy_def parse_result_def
        split: fetch_result.splits json_body.splits etherscan_result.splits option.splits if_splits)

text \<open>The four ways the details block ends.\<close>

lemma contractDetails_no_record:
  assumes "\<forall>r. sourceRecord env tr (HttpGet (sourceUrl env nw addr)) \<noteq> Inr (Some r)"
  shows "\<exists>caught tr'. contractDetails env nw addr abi0 tr = (''Unknown Contract'', abi0, caught, tr')"
  using assms by (auto simp: contractDetails_def Let_def split: sum.splits option.splits)

lemma contractDetails_no_impl:
  assumes "sourceRecord env tr (HttpGet (sourceUrl env nw addr)) = Inr (Some r)"
      and "\<forall>p. implAbi env (tr @ [HttpGet (sourceUrl env nw addr)])
                  (HttpGet (implUrl env nw (Implementation r))) \<noteq> Inr (Some p)"
  shows "\<exists>caught tr'. contractDetails env nw addr abi0 tr = (contractNameOf r, abi0, caught, tr')"
  using assms by (auto simp: contractDetails_def Let_def split: sum.splits option.splits)


lemma contractDetails_proxy_requests:
  assumes "sourceRecord env tr (HttpGet (sourceUrl env nw addr)) = Inr (Some r)"
      and "Proxy r = ''1''" and "Implementation r \<noteq> []"
      and "implAbi env (tr @ [HttpGet (sourceUrl env nw addr)])
                  (HttpGet (implUrl env nw (Implementation r))) = Inr (Some p)"
  shows "contractDetails env nw addr abi0 tr
            = (contractNameOf r @ '' (Proxy)'', p, None,
               tr @ [HttpGet (sourceUrl env nw addr),
                     HttpGet (implUrl env nw (Implementation r))])"
  using assms by (simp add: contractDetails_def Let_def)

text \<open>
  C4. When the first request has given the proxy's verified ABI, the source record of
  the contract has the proxy flag \<open>1\<close> and a non-empty implementation address, and the
  ABI request for that address is answered with status \<open>1\<close> and an ABI text that parses,
  then the ABI of the response is the implementation's ABI and the name is the
  contract name followed by the marker \<open>(Proxy)\<close>. The handler has then issued three
  requests: the ABI of the address, its source record, and the ABI of the
  implementation address.
\<close>

theorem proxy_abi_replaced:
  assumes "getContractSchema_parse q = Inr (addr, nw)"
      and "explorer env [] (HttpGet (v2Url env nw addr)) = FetchResponse True statusText (Body d)"
      and "status d = ''1''" and "result d = TextResult txt" and "txt \<noteq> []"
      and "JSON_parse env txt = Some parsed"
      and "explorer env [HttpGet (v2Url env nw addr)] (HttpGet (sourceUrl env nw addr))
             = FetchResponse True statusText2 (Body sourceData)"
      and "status sourceData = ''1''" and "result sourceData = SourceList (r # rs)"
      and "Proxy r = ''1''" and "Implementation r \<noteq> []"
      and "explorer env [HttpGet (v2Url env nw addr), HttpGet (sourceUrl env nw addr)]
             (HttpGet (implUrl env nw (Implementation r)))
             = FetchResponse True statusText3 (Body implData)"
      and "status implData = ''1''" and "result implData = TextResult implTxt" and "implTxt \<noteq> []"
      and "JSON_parse env implTxt = Some implParsed"
  shows "fst (getContract env q) =
           verifiedResponse addr (contractNameOf r @ '' (Proxy)'') implParsed
       \<and> http_status (fst (getContract env q)) = 200
       \<and> (\<exists>c. data (body (fst (getContract env q))) = Some c
              \<and> abi c = ParsedAbi implParsed
              \<and> name c = (if ContractName r \<noteq> [] then ContractName r else ''Unknown Contract'')
                          @ '' (Proxy)'')
       \<and> snd (getContract env q) =
           [HttpGet (v2Url env nw addr), HttpGet (sourceUrl env nw addr),
            HttpGet (implUrl env nw (Implementation r))]"
proof -
  have sr: "sourceRecord env [HttpGet (v2Url env nw addr)] (HttpGet (sourceUrl env nw addr))
              = Inr (Some r)"
    using assms(7-9) sourceRecord_Some_iff by blast
  have ia: "implAbi env ([HttpGet (v2Url env nw addr)] @ [HttpGet (sourceUrl env nw addr)])
              (HttpGet (implUrl env nw (Implementation r))) = Inr (Some implParsed)"
    using assms(12-16) implAbi_Some_iff [of env _ _ implParsed] by auto
  note cd = contractDetails_proxy_requests [OF sr assms(10,11) ia, of parsed]
  from cd getContract_verified [OF assms(1-6)]
  have res: "fst (getContract env q) =
               verifiedResponse addr (contractNameOf r @ '' (Proxy)'') implParsed"
    by simp
  from cd getContract_verified_requests [OF assms(1-6)]
  have reqs: "snd (getContract env q) =
           [HttpGet (v2Url env nw addr), HttpGet (sourceUrl env nw addr),
            HttpGet (implUrl env nw (Implementation r))]"
    by simp
  from res reqs show ?thesis by (simp add: verifiedResponse_def contractNameOf_def)
qed

text \<open>The statement at the example proxy: the ABI \<open>[2]\<close> of the implementation is returned.\<close>

theorem proxy_abi_replaced_witness:
  "fst (getContract proxyEnv exampleQuery) =
     verifiedResponse exampleAddress ''Vault (Proxy)'' ''[2]''
   \<and> abi (the (data (body (fst (getContract proxyEnv exampleQuery))))) = ParsedAbi ''[2]''
   \<and> name (the (data (body (fst (getContract proxyEnv exampleQuery))))) = ''Vault (Proxy)''
   \<and> snd (getContract proxyEnv exampleQuery) =
       [HttpGet (''https://api.etherscan.io/v2/api?chainid=8453''
                 @ ''&module=contract&action=getabi''
                 @ ''&address=0xAbCdEf0123456789aBcDeF0123456789abcdef01''),
        HttpGet (''https://api.etherscan.io/v2/api?chainid=8453''
                 @ ''&module=contract&action=getsourcecode''
                 @ ''&address=0xAbCdEf0123456789aBcDeF0123456789abcdef01''),
        HttpGet (''https://api.etherscan.io/v2/api?chainid=8453''
                 @ ''&module=contract&action=getabi''
                 @ ''&address=0xbbbbbbbbbbbbbbbbbbbbbbbbbbbbbbbbbbbbbbbb'')]"
proof -
  let ?r = "sourceOf ''Vault'' ''1'' exampleImplementation"
  have a1: "explorer proxyEnv [] (HttpGet (v2Url proxyEnv mainnet exampleAddress))
              = FetchResponse True ''OK''
                  (Body \<lparr>status = ''1'', message = ''OK'', result = TextResult ''[1]''\<rparr>)"
    by (simp add: proxyEnv_def exampleEnv_def proxyExplorer_def abiAnswer_def)
  have a2: "explorer proxyEnv [HttpGet (v2Url proxyEnv mainnet exampleAddress)]
              (HttpGet (sourceUrl proxyEnv mainnet exampleAddress))
              = FetchResponse True ''OK''
                  (Body \<lparr>status = ''1'', message = ''OK'', result = SourceList [?r]\<rparr>)"
    by (simp add: proxyEnv_def exampleEnv_def proxyExplorer_def sourceAnswer_def)
  have a3: "explorer proxyEnv [HttpGet (v2Url proxyEnv mainnet exampleAddress),
                               HttpGet (sourceUrl proxyEnv mainnet exampleAddress)]
              (HttpGet (implUrl proxyEnv mainnet (Implementation ?r)))
              = FetchResponse True ''OK''
                  (Body \<lparr>status = ''1'', message = ''OK'', result = TextResult ''[2]''\<rparr>)"
    by (simp add: proxyEnv_def exampleEnv_def proxyExplorer_def abiAnswer_def)
  have p1: "JSON_parse proxyEnv ''[1]'' = Some ''[1]''"
    and p2: "JSON_parse proxyEnv ''[2]'' = Some ''[2]''"
    by (simp_all add: proxyEnv_def exampleEnv_def exampleParse_def)
  have flag: "Proxy ?r = ''1''" and impl: "Implementation ?r \<noteq> []"
    by (simp_all add: sourceOf_def exampleImplementation_def)
  have "fst (getContract proxyEnv exampleQuery) =
           verifiedResponse exampleAddress (contractNameOf ?r @ '' (Proxy)'') ''[2]''
       \<and> http_status (fst (getContract proxyEnv exampleQuery)) = 200
       \<and> (\<exists>c. data (body (fst (getContract proxyEnv exampleQuery))) = Some c
              \<and> abi c = ParsedAbi ''[2]''
              \<and> name c = (if ContractName ?r \<noteq> [] then ContractName ?r else ''Unknown Contract'')
                          @ '' (Proxy)'')
       \<and> snd (getContract proxyEnv exampleQuery) =
           [HttpGet (v2Url proxyEnv mainnet exampleAddress),
            HttpGet (sourceUrl proxyEnv mainnet exampleAddress),
            HttpGet (implUrl proxyEnv mainnet (Implementation ?r))]"
    by (rule proxy_abi_replaced [OF exampleQuery_parse a1 _ _ _ p1 a2 _ _ flag impl a3 _ _ _ p2])
       simp_all
  then show ?thesis
    by (auto simp: sourceOf_def contractNameOf_def v2Url_def sourceUrl_def implUrl_def
          chainId_def apiKeyParam_def proxyEnv_def exampleEnv_def exampleAddress_def
          exampleImplementation_def)
qed

text \<open>
  C7. Once the first request has given the verified ABI, the response is a success with
  status 200, marked verified, for the address sent, whatever the later requests give.
  When the source lookup gives no record (a network error, a status that is not \<open>ok\<close>
  or not \<open>1\<close>, a result that is no array or an empty one), the name is the generic
  \<open>Unknown Contract\<close> and the ABI is the verified one. When it gives a record but the
  lookup of the implementation gives no ABI, the name is the contract name without
  marker and the ABI is the verified one, unchanged.
\<close>

theorem enrichment_never_fails:
  assumes "getContractSchema_parse q = Inr (addr, nw)"
      and "explorer env [] (HttpGet (v2Url env nw addr)) = FetchResponse True statusText (Body d)"
      and "status d = ''1''" and "result d = TextResult txt" and "txt \<noteq> []"
      and "JSON_parse env txt = Some parsed"
  shows "http_status (fst (getContract env q)) = 200
       \<and> success (body (fst (getContract env q)))
       \<and> (\<exists>c. data (body (fst (getContract env q))) = Some c
              \<and> isVerified c \<and> address c = addr
              \<and> ((\<forall>r. sourceRecord env [HttpGet (v2Url env nw addr)]
                         (HttpGet (sourceUrl env nw addr)) \<noteq> Inr (Some r))
                   \<longrightarrow> name c = ''Unknown Contract'' \<and> abi c = ParsedAbi parsed)
              \<and> (\<forall>r. sourceRecord env [HttpGet (v2Url env nw addr)]
                         (HttpGet (sourceUrl env nw addr)) = Inr (Some r)
                       \<and> (\<forall>p. implAbi env [HttpGet (v2Url env nw addr),
                                            HttpGet (sourceUrl env nw addr)]
                                  (HttpGet (implUrl env nw (Implementation r))) \<noteq> Inr (Some p))
                   \<longrightarrow> name c = contractNameOf r \<and> abi c = ParsedAbi parsed))"
proof -
  let ?tr = "[HttpGet (v2Url env nw addr)]"
  obtain nm abi1 caught tr' where cd:
    "contractDetails env nw addr parsed ?tr = (nm, abi1, caught, tr')"
    by (cases "contractDetails env nw addr parsed ?tr") auto
  with getContract_verified [OF assms]
  have res: "fst (getContract env q) = verifiedResponse addr nm abi1" by simp
  have a: "(\<forall>r. sourceRecord env ?tr (HttpGet (sourceUrl env nw addr)) \<noteq> Inr (Some r))
             \<longrightarrow> nm = ''Unknown Contract'' \<and> abi1 = parsed"
    using contractDetails_no_record [of env ?tr nw addr parsed] cd by auto
  have b: "\<forall>r. sourceRecord env ?tr (HttpGet (sourceUrl env nw addr)) = Inr (Some r)
                       \<and> (\<forall>p. implAbi env [HttpGet (v2Url env nw addr),
                                            HttpGet (sourceUrl env nw addr)]
                                  (HttpGet (implUrl env nw (Implementation r))) \<noteq> Inr (Some p))
                   \<longrightarrow> nm = contractNameOf r \<and> abi1 = parsed"
    using contractDetails_no_impl [of env ?tr nw addr _ parsed] cd by auto
  from a b show ?thesis unfolding res by (auto simp: verifiedResponse_def)
qed

text \<open>
  The statement where the source lookup meets a network error, and where the
  implementation lookup is answered with an error status.
\<close>

theorem enrichment_never_fails_witness:
  "http_status (fst (getContract namelessEnv exampleQuery)) = 200
   \<and> name (the (data (body (fst (getContract namelessEnv exampleQuery))))) = ''Unknown Contract''
   \<and> abi (the (data (body (fst (getContract namelessEnv exampleQuery))))) = ParsedAbi ''[1]''
   \<and> http_status (fst (getContract brokenProxyEnv exampleQuery)) = 200
   \<and> name (the (data (body (fst (getContract brokenProxyEnv exampleQuery))))) = ''Vault''
   \<and> abi (the (data (body (fst (getContract brokenProxyEnv exampleQuery))))) = ParsedAbi ''[1]''"
proof -
  let ?r = "sourceOf ''Vault'' ''1'' exampleImplementation"
  have n1: "explorer namelessEnv [] (HttpGet (v2Url namelessEnv mainnet exampleAddress))
              = FetchResponse True ''OK''
                  (Body \<lparr>status = ''1'', message = ''OK'', result = TextResult ''[1]''\<rparr>)"
    by (simp add: namelessEnv_def exampleEnv_def namelessExplorer_def abiAnswer_def)
  have np: "JSON_parse namelessEnv ''[1]'' = Some ''[1]''"
    by (simp add: namelessEnv_def exampleEnv_def exampleParse_def)
  have n2: "\<forall>r. sourceRecord namelessEnv [HttpGet (v2Url namelessEnv mainnet exampleAddress)]
                  (HttpGet (sourceUrl namelessEnv mainnet exampleAddress)) \<noteq> Inr (Some r)"
    by (simp add: sourceRecord_def namelessEnv_def exampleEnv_def namelessExplorer_def)
  have b1: "explorer brokenProxyEnv [] (HttpGet (v2Url brokenProxyEnv mainnet exampleAddress))
              = FetchResponse True ''OK''
                  (Body \<lparr>status = ''1'', message = ''OK'', result = TextResult ''[1]''\<rparr>)"
    by (simp add: brokenProxyEnv_def exampleEnv_def brokenProxyExplorer_def abiAnswer_def)
  have bp: "JSON_parse brokenProxyEnv ''[1]'' = Some ''[1]''"
    by (simp add: brokenProxyEnv_def exampleEnv_def exampleParse_def)
  have b2: "sourceRecord brokenProxyEnv [HttpGet (v2Url brokenProxyEnv mainnet exampleAddress)]
                  (HttpGet (sourceUrl brokenProxyEnv mainnet exampleAddress)) = Inr (Some ?r)"
    by (simp add: sourceRecord_def brokenProxyEnv_def exampleEnv_def brokenProxyExplorer_def
          sourceAnswer_def)
  have b3: "\<forall>p. implAbi brokenProxyEnv
                  [HttpGet (v2Url brokenProxyEnv mainnet exampleAddress),
                   HttpGet (sourceUrl brokenProxyEnv mainnet exampleAddress)]
                  (HttpGet (implUrl brokenProxyEnv mainnet (Implementation ?r))) \<noteq> Inr (Some p)"
    by (simp add: implAbi_def brokenProxyEnv_def exampleEnv_def brokenProxyExplorer_def)
  from enrichment_never_fails [OF exampleQuery_parse n1 _ _ _ np] n2
  have n: "http_status (fst (getContract namelessEnv exampleQuery)) = 200
     \<and> name (the (data (body (fst (getContract namelessEnv exampleQuery))))) = ''Unknown Contract''
     \<and> abi (the (data (body (fst (getContract namelessEnv exampleQuery))))) = ParsedAbi ''[1]''"
    by auto
  from enrichment_never_fails [OF exampleQuery_parse b1 _ _ _ bp] b2 b3
  have b: "http_status (fst (getContract brokenProxyEnv exampleQuery)) = 200
     \<and> name (the (data (body (fst (getContract brokenProxyEnv exampleQuery))))) = contractNameOf ?r
     \<and> abi (the (data (body (fst (getContract brokenProxyEnv exampleQuery))))) = ParsedAbi ''[1]''"
    by auto
  from n b show ?thesis by (simp add: contractNameOf_def sourceOf_def)
qed




subsection \<open>The final answer\<close>

text \<open>
  C5. When tier 1 ends with an exception and the node's answer has no bytecode (the
  body is not JSON or \<open>null\<close>, or has no result) or the bytecode \<open>0x\<close>, the response has
  status 404, \<open>success\<close> false and the code \<open>REQUIRE_MANUAL_ABI\<close>.
\<close>

theorem no_bytecode_404:
  assumes "getContractSchema_parse q = Inr (addr, nw)"
      and "tier1 env addr nw = (Inl tier1Error, tr)"
      and "rpc env tr (JsonRpc (rpcUrl env nw) ''eth_getCode'' [addr, ''latest''])
             = FetchResponse ok statusText json"
      and "bytecodeOf json = None \<or> bytecodeOf json = Some ''0x''"
  shows "http_status (fst (getContract env q)) = 404
       \<and> success (body (fst (getContract env q))) = False
       \<and> code (body (fst (getContract env q))) = Some ''REQUIRE_MANUAL_ABI''"
proof -
  have "\<exists>e tr'. tier2 env addr nw tr = (Inl e, tr')"
    using assms(3,4) by (auto simp: tier2_def Let_def)
  then obtain e tr' where "tier2 env addr nw tr = (Inl e, tr')" by blast
  with assms(1,2) have "fst (getContract env q) = manualAbiRequired"
    by (simp add: getContract_def)
  then show ?thesis by (simp add: manualAbiRequired_def)
qed

text \<open>The statement where the explorer is unreachable and the node returns \<open>0x\<close>.\<close>

theorem no_bytecode_404_witness:
  "tier1 emptyCodeEnv exampleAddress mainnet
     = (Inl TypeError, [HttpGet (v2Url emptyCodeEnv mainnet exampleAddress)])
   \<and> bytecodeOf (Body \<lparr>jsonrpc = ''2.0'', rpc_id = 1, rpc_result = Some ''0x''\<rparr>) = Some ''0x''
   \<and> http_status (fst (getContract emptyCodeEnv exampleQuery)) = 404
   \<and> success (body (fst (getContract emptyCodeEnv exampleQuery))) = False
   \<and> code (body (fst (getContract emptyCodeEnv exampleQuery))) = Some ''REQUIRE_MANUAL_ABI''"
proof -
  have t1: "tier1 emptyCodeEnv exampleAddress mainnet
     = (Inl TypeError, [HttpGet (v2Url emptyCodeEnv mainnet exampleAddress)])"
    by (simp add: tier1_def emptyCodeEnv_def exampleEnv_def unreachable_def)
  have r: "rpc emptyCodeEnv [HttpGet (v2Url emptyCodeEnv mainnet exampleAddress)]
             (JsonRpc (rpcUrl emptyCodeEnv mainnet) ''eth_getCode'' [exampleAddress, ''latest''])
             = FetchResponse True ''OK''
                 (Body \<lparr>jsonrpc = ''2.0'', rpc_id = 1, rpc_result = Some ''0x''\<rparr>)"
    by (simp add: emptyCodeEnv_def exampleEnv_def emptyCodeRpc_def)
  have b: "bytecodeOf (Body \<lparr>jsonrpc = ''2.0'', rpc_id = 1, rpc_result = Some ''0x''\<rparr>) = None
         \<or> bytecodeOf (Body \<lparr>jsonrpc = ''2.0'', rpc_id = 1, rpc_result = Some ''0x''\<rparr>)
             = Some ''0x''"
    by (simp add: bytecodeOf_def)
  from no_bytecode_404 [OF exampleQuery_parse t1 r b] t1 show ?thesis
    by (simp add: bytecodeOf_def)
qed

lemma tier1_Inr:
  "tier1 env addr nw = (Inr res, tr) \<Longrightarrow>
     \<exists>nm parsed. res = verifiedResponse addr nm parsed"
  by (auto simp: tier1_def Let_def split: fetch_result.splits json_body.splits if_splits
        option.splits prod.splits)

lemma tier2_Inr:
  "tier2 env addr nw tr = (Inr res, tr') \<Longrightarrow> \<exists>fs. res = recoveredResponse addr fs"
  by (auto simp: tier2_def Let_def split: fetch_result.splits if_splits option.splits
        prod.splits)

text \<open>The four answers of the handler.\<close>

lemma getContract_cases:
  "(\<exists>issues. getContractSchema_parse q = Inl issues
       \<and> getContract env q = (invalidRequest issues, []))
   \<or> (\<exists>addr nw nm parsed. getContractSchema_parse q = Inr (addr, nw)
         \<and> fst (getContract env q) = verifiedResponse addr nm parsed)
   \<or> (\<exists>addr nw fs. getContractSchema_parse q = Inr (addr, nw)
         \<and> fst (getContract env q) = recoveredResponse addr fs)
   \<or> fst (getContract env q) = manualAbiRequired"
  unfolding getContract_def
  by (auto split: sum.splits prod.splits dest: tier1_Inr tier2_Inr)

text \<open>
  C10. In every success response, of the verified tier and of the recovery tier, the
  address field is the address string of the request, character by character.
\<close>

theorem response_address_verbatim:
  assumes "success (body (fst (getContract env q)))"
  shows "\<exists>c. data (body (fst (getContract env q))) = Some c \<and> q_address q = Text (address c)"
  using getContract_cases [of q env] assms
  by (auto simp: invalidRequest_def manualAbiRequired_def verifiedResponse_def
        recoveredResponse_def dest: parse_Inr)

text \<open>The statement at the mixed-case example address, in both tiers.\<close>

theorem response_address_verbatim_witness:
  "success (body (fst (getContract plainEnv exampleQuery)))
   \<and> address (the (data (body (fst (getContract plainEnv exampleQuery)))))
       = ''0xAbCdEf0123456789aBcDeF0123456789abcdef01''
   \<and> success (body (fst (getContract lossyEnv exampleQuery)))
   \<and> address (the (data (body (fst (getContract lossyEnv exampleQuery)))))
       = ''0xAbCdEf0123456789aBcDeF0123456789abcdef01''"
proof -
  have s1: "success (body (fst (getContract plainEnv exampleQuery)))"
    by (simp add: getContract_def exampleQuery_parse tier1_def plainEnv_def plainExplorer_def
          example_defs truthy_def parse_result_def contractDetails_def sourceRecord_def
          contractNameOf_def Let_def verifiedResponse_def)
  have s2: "success (body (fst (getContract lossyEnv exampleQuery)))"
    by (simp add: recovery_response lossyEnv_def exampleEnv_def recoveredResponse_def)
  from response_address_verbatim [OF s1] response_address_verbatim [OF s2] s1 s2
  show ?thesis
    by (auto simp: exampleQuery_def exampleAddress_def)
qed

end
